theory Spec2Isabelle
  imports Main "HOL-Library.Word"
begin

unbundle bit_operations_syntax

section \<open>The MSI embedded-controller driver (msi-ec.c)\<close>

text \<open>
  A shallow embedding of \<^verbatim>\<open>msi-ec.c\<close>. The driver talks to the embedded controller
  through the kernel's \<^verbatim>\<open>ec_read\<close> and \<^verbatim>\<open>ec_write\<close>, parses user input with
  \<^verbatim>\<open>kstrtou8\<close> and \<^verbatim>\<open>sscanf\<close> and prints with \<^verbatim>\<open>sprintf\<close>. These kernel services are
  not part of the driver; they are modelled first, then the driver's functions follow the
  source one by one.
\<close>

type_synonym u8 = "8 word"

subsection \<open>Register transport\<close>

text \<open>
  The controller is a space of 256 byte registers. The transport can fail at any call:
  \<open>rd_errno s t a\<close> is the errno with which the \<open>t\<close>-th transport call of the run fails
  when it is a read of address \<open>a\<close> (0 when it succeeds), \<open>wr_errno\<close> the same for a
  write. Every call is appended to \<open>trace\<close>, so that the number and the order of the
  transport calls are part of the state.
\<close>

datatype ec_op = Ec_Read u8 | Ec_Write u8 u8

record ec =
  regs :: "u8 \<Rightarrow> u8"
  rd_errno :: "nat \<Rightarrow> u8 \<Rightarrow> nat"
  wr_errno :: "nat \<Rightarrow> u8 \<Rightarrow> nat"
  trace :: "ec_op list"

text \<open>
  \<^verbatim>\<open>int ec_read(u8 addr, u8 *val)\<close>: 0 and the byte in \<^verbatim>\<open>*val\<close>, or a negative errno
  (\<open>Inl\<close>) and \<^verbatim>\<open>*val\<close> untouched.
\<close>

definition ec_read :: "ec \<Rightarrow> u8 \<Rightarrow> ec \<times> (int + u8)" where
  "ec_read s addr =
     (let e = rd_errno s (length (trace s)) addr
      in (s\<lparr>trace := trace s @ [Ec_Read addr]\<rparr>,
          if e = 0 then Inr (regs s addr) else Inl (- int e)))"

text \<open>\<^verbatim>\<open>int ec_write(u8 addr, u8 val)\<close>: 0 and the register updated, or a negative errno.\<close>

definition ec_write :: "ec \<Rightarrow> u8 \<Rightarrow> u8 \<Rightarrow> ec \<times> int" where
  "ec_write s addr val =
     (let e = wr_errno s (length (trace s)) addr
      in if e = 0
         then (s\<lparr>regs := (regs s)(addr := val), trace := trace s @ [Ec_Write addr val]\<rparr>, 0)
         else (s\<lparr>trace := trace s @ [Ec_Write addr val]\<rparr>, - int e))"

definition EINVAL :: int where
  "EINVAL = 22"

definition ERANGE :: int where
  "ERANGE = 34"

subsection \<open>Text: characters, printing, parsing\<close>

definition isdigit :: "char \<Rightarrow> bool" where
  "isdigit ch = (48 \<le> (of_char ch :: nat) \<and> (of_char ch :: nat) \<le> 57)"

definition digit_val :: "char \<Rightarrow> nat" where
  "digit_val ch = of_char ch - 48"

text \<open>The kernel's \<^verbatim>\<open>isspace\<close>: tab, newline, vertical tab, form feed, carriage return,
  space and the no-break space 0xa0.\<close>

definition isspace :: "char \<Rightarrow> bool" where
  "isspace ch = ((of_char ch :: nat) \<in> {9, 10, 11, 12, 13, 32, 160})"

definition skip_spaces :: "string \<Rightarrow> string" where
  "skip_spaces str = dropWhile isspace str"

text \<open>Decimal digits of a number, most significant first.\<close>

fun dec_digits :: "nat \<Rightarrow> string" where
  "dec_digits n =
     (if n < 10 then [char_of (48 + n)]
      else dec_digits (n div 10) @ [char_of (48 + n mod 10)])"

declare dec_digits.simps [simp del]

text \<open>
  \<^verbatim>\<open>sprintf\<close>'s \<^verbatim>\<open>%0wd\<close> (and \<^verbatim>\<open>%i\<close> for \<open>w = 0\<close>): the sign counts in the field width,
  zeros fill the field between the sign and the digits.
\<close>

definition fmt_d :: "nat \<Rightarrow> int \<Rightarrow> string" where
  "fmt_d w i =
     (if i < 0
      then CHR ''-'' # replicate ((w - 1) - length (dec_digits (nat (- i)))) CHR ''0''
             @ dec_digits (nat (- i))
      else replicate (w - length (dec_digits (nat i))) CHR ''0'' @ dec_digits (nat i))"

text \<open>
  \<^verbatim>\<open>_parse_integer_limit\<close> in base 10: consumes at most \<open>max_chars\<close> leading digits and
  accumulates their value; returns the value and the rest of the input.
\<close>

fun parse_integer_limit :: "nat \<Rightarrow> string \<Rightarrow> nat \<Rightarrow> nat \<times> string" where
  "parse_integer_limit 0 s res = (res, s)"
| "parse_integer_limit (Suc max_chars) [] res = (res, [])"
| "parse_integer_limit (Suc max_chars) (ch # s) res =
     (if isdigit ch then parse_integer_limit max_chars s (res * 10 + digit_val ch)
      else (res, ch # s))"

text \<open>
  \<^verbatim>\<open>kstrtoull(s, 10, &res)\<close>: an optional \<^verbatim>\<open>+\<close>, at least one digit, an optional final
  newline and nothing else; \<^verbatim>\<open>-ERANGE\<close> when the digits overflow 64 bits, \<^verbatim>\<open>-EINVAL\<close>
  for any other malformed input.
\<close>

definition kstrtoull :: "string \<Rightarrow> int + nat" where
  "kstrtoull s =
     (let s1 = (case s of ch # r \<Rightarrow> if ch = CHR ''+'' then r else s | [] \<Rightarrow> s);
          (res, rest) = parse_integer_limit (length s1) s1 0
      in if 2 ^ 64 \<le> res then Inl (- ERANGE)
         else if length rest = length s1 then Inl (- EINVAL)
         else (let rest' = (case rest of ch # r \<Rightarrow> if ch = CHR 0x0A then r else rest | [] \<Rightarrow> rest)
               in if rest' \<noteq> [] then Inl (- EINVAL) else Inr res))"

text \<open>\<^verbatim>\<open>kstrtou8(s, 10, &res)\<close>: as \<^verbatim>\<open>kstrtoull\<close>, and \<^verbatim>\<open>-ERANGE\<close> when the value is
  not a byte.\<close>

definition kstrtou8 :: "string \<Rightarrow> int + u8" where
  "kstrtou8 s =
     (case kstrtoull s of
        Inl rv \<Rightarrow> Inl rv
      | Inr tmp \<Rightarrow> if 256 \<le> tmp then Inl (- ERANGE) else Inr (of_nat tmp))"

text \<open>
  The kernel's \<^verbatim>\<open>sscanf\<close>, for formats made of \<^verbatim>\<open>%<w>d\<close> conversions with a field width
  and of literal, non-blank characters (the two formats the driver uses). The result is
  the list of converted values, in order: its length is what \<^verbatim>\<open>sscanf\<close> returns, and
  only these are stored through the argument pointers. Scanning stops at the first
  directive that does not match.
\<close>

datatype directive = Conv_d nat | Lit char

text \<open>One \<^verbatim>\<open>%<w>d\<close> on input whose leading blanks are already skipped.\<close>

definition scan_d :: "nat \<Rightarrow> string \<Rightarrow> (int \<times> string) option" where
  "scan_d w str =
     (case str of
        [] \<Rightarrow> None
      | ch # r \<Rightarrow>
          if ch = CHR ''-'' then
            (if w = 1 then None
             else (case r of
                     [] \<Rightarrow> None
                   | ch' # _ \<Rightarrow>
                       if isdigit ch'
                       then (case parse_integer_limit (w - 1) r 0 of
                               (v, next) \<Rightarrow> Some (- int v, next))
                       else None))
          else if isdigit ch
          then (case parse_integer_limit w str 0 of (v, next) \<Rightarrow> Some (int v, next))
          else None)"

fun vsscanf :: "string \<Rightarrow> directive list \<Rightarrow> int list" where
  "vsscanf str [] = []"
| "vsscanf str (Lit ch # fmt) =
     (case str of
        [] \<Rightarrow> []
      | x # str' \<Rightarrow> if x = ch then vsscanf str' fmt else [])"
| "vsscanf str (Conv_d w # fmt) =
     (if str = [] then []
      else (case scan_d w (skip_spaces str) of
              None \<Rightarrow> []
            | Some (v, next) \<Rightarrow> v # vsscanf next fmt))"

declare vsscanf.simps [simp del]

text \<open>
  The variables behind the argument pointers after \<^verbatim>\<open>sscanf\<close>: the converted values
  overwrite the first ones, the others keep what they held.
\<close>

definition assigned :: "int list \<Rightarrow> int list \<Rightarrow> int list" where
  "assigned vals olds = vals @ drop (length vals) olds"

text \<open>The bytes of a text.\<close>

definition bytes_of :: "string \<Rightarrow> u8 list" where
  "bytes_of str = map (\<lambda>ch. of_nat (of_char ch)) str"

text \<open>The C string in an array of \<open>n\<close> bytes that holds a NUL: the bytes before the
  first NUL.\<close>

definition c_string :: "(nat \<Rightarrow> u8) \<Rightarrow> nat \<Rightarrow> string" where
  "c_string buf n = map (\<lambda>b. char_of (unat b)) (takeWhile (\<lambda>b. b \<noteq> 0) (map buf [0..<n]))"

text \<open>C's integer division truncates towards zero.\<close>

definition c_div :: "int \<Rightarrow> int \<Rightarrow> int" where
  "c_div a b = sgn a * sgn b * (\<bar>a\<bar> div \<bar>b\<bar>)"

subsection \<open>The constants of constants.h\<close>

text \<open>
  \<^verbatim>\<open>constants.h\<close> is not among the sources, so every constant the driver takes from it is
  a parameter. Addresses, register codes, offsets and range bounds are byte values (the
  code compares them with bytes read from registers and passes them to \<^verbatim>\<open>u8\<close>
  parameters); the field lengths are array sizes, hence natural numbers; the keyboard
  backlight table \<^verbatim>\<open>MSI_EC_KBD_BL_STATE[]\<close> is indexed by the level.
\<close>

record constants =
  MSI_EC_CHARGE_CONTROL_ADDRESS :: u8
  MSI_EC_CHARGE_CONTROL_OFFSET_START :: u8
  MSI_EC_CHARGE_CONTROL_OFFSET_END :: u8
  MSI_EC_CHARGE_CONTROL_RANGE_MIN :: u8
  MSI_EC_CHARGE_CONTROL_RANGE_MAX :: u8
  MSI_EC_WEBCAM_ADDRESS :: u8
  MSI_EC_WEBCAM_ON :: u8
  MSI_EC_WEBCAM_OFF :: u8
  MSI_EC_FN_WIN_ADDRESS :: u8
  MSI_EC_FN_KEY_LEFT :: u8
  MSI_EC_FN_KEY_RIGHT :: u8
  MSI_EC_WIN_KEY_LEFT :: u8
  MSI_EC_WIN_KEY_RIGHT :: u8
  MSI_EC_BATTERY_MODE_ADDRESS :: u8
  MSI_EC_BATTERY_MODE_MAX_CHARGE :: u8
  MSI_EC_BATTERY_MODE_MEDIUM_CHARGE :: u8
  MSI_EC_BATTERY_MODE_MIN_CHARGE :: u8
  MSI_EC_COOLER_BOOST_ADDRESS :: u8
  MSI_EC_COOLER_BOOST_ON :: u8
  MSI_EC_COOLER_BOOST_OFF :: u8
  MSI_EC_SHIFT_MODE_ADDRESS :: u8
  MSI_EC_SHIFT_MODE_PERFORMANCE :: u8
  MSI_EC_SHIFT_MODE_BALANCED :: u8
  MSI_EC_SHIFT_MODE_ECO :: u8
  MSI_EC_SHIFT_MODE_OFF :: u8
  MSI_EC_FAN_MODE_ADDRESS :: u8
  MSI_EC_FAN_MODE_SILENT :: u8
  MSI_EC_FAN_MODE_BASIC :: u8
  MSI_EC_FAN_MODE_ADVANCED :: u8
  MSI_EC_FW_VERSION_ADDRESS :: u8
  MSI_EC_FW_VERSION_LENGTH :: nat
  MSI_EC_FW_DATE_ADDRESS :: u8
  MSI_EC_FW_DATE_LENGTH :: nat
  MSI_EC_FW_TIME_ADDRESS :: u8
  MSI_EC_FW_TIME_LENGTH :: nat
  MSI_EC_CPU_REALTIME_TEMPERATURE_ADDRESS :: u8
  MSI_EC_CPU_REALTIME_FAN_SPEED_ADDRESS :: u8
  MSI_EC_CPU_REALTIME_FAN_SPEED_BASE_MIN :: u8
  MSI_EC_CPU_REALTIME_FAN_SPEED_BASE_MAX :: u8
  MSI_EC_CPU_BASIC_FAN_SPEED_ADDRESS :: u8
  MSI_EC_CPU_BASIC_FAN_SPEED_BASE_MIN :: u8
  MSI_EC_CPU_BASIC_FAN_SPEED_BASE_MAX :: u8
  MSI_EC_GPU_REALTIME_TEMPERATURE_ADDRESS :: u8
  MSI_EC_GPU_REALTIME_FAN_SPEED_ADDRESS :: u8
  MSI_EC_LED_MICMUTE_ADDRESS :: u8
  MSI_EC_MIC_LED_STATE_ON :: u8
  MSI_EC_MIC_LED_STATE_OFF :: u8
  MSI_EC_LED_MUTE_ADDRESS :: u8
  MSI_EC_MUTE_LED_STATE_ON :: u8
  MSI_EC_MUTE_LED_STATE_OFF :: u8
  MSI_EC_KBD_BL_ADDRESS :: u8
  MSI_EC_KBD_BL_STATE_MASK :: u8
  MSI_EC_KBD_BL_STATE :: "nat \<Rightarrow> u8"

subsection \<open>The sequential reader\<close>

text \<open>
  \<^verbatim>\<open>static int ec_read_seq(u8 addr, u8 *buf, int len)\<close>. The counter \<^verbatim>\<open>i\<close> is a \<^verbatim>\<open>u8\<close>:
  \<^verbatim>\<open>i++\<close> wraps from 255 to 0, and \<^verbatim>\<open>i < len\<close> compares it as an \<^verbatim>\<open>int\<close>. The sum
  \<^verbatim>\<open>addr + i\<close> is cut to a byte when it is passed to \<^verbatim>\<open>ec_read\<close>. The buffer is the
  memory from \<^verbatim>\<open>buf\<close> on, indexed by the offset. The loop may run forever, so the
  function is partial: \<open>None\<close> is a call that never returns.
\<close>

partial_function (option) ec_read_seq_loop ::
  "ec \<Rightarrow> u8 \<Rightarrow> (nat \<Rightarrow> u8) \<Rightarrow> int \<Rightarrow> u8 \<Rightarrow> (ec \<times> int \<times> (nat \<Rightarrow> u8)) option" where
  "ec_read_seq_loop s addr buf len i =
     (if uint i < len then
        (case ec_read s (addr + i) of
           (s', Inl result) \<Rightarrow> Some (s', result, buf)
         | (s', Inr val) \<Rightarrow> ec_read_seq_loop s' addr (buf(unat i := val)) len (i + 1))
      else Some (s, 0, buf))"

definition ec_read_seq ::
  "ec \<Rightarrow> u8 \<Rightarrow> (nat \<Rightarrow> u8) \<Rightarrow> int \<Rightarrow> (ec \<times> int \<times> (nat \<Rightarrow> u8)) option" where
  "ec_read_seq s addr buf len = ec_read_seq_loop s addr buf len 0"

subsection \<open>Results of the sysfs callbacks\<close>

text \<open>
  A \<^verbatim>\<open>show\<close> callback returns a negative errno (\<open>Fault\<close>) or the number of characters it
  printed into the output page (\<open>Text\<close>, with the characters). \<open>Divide_Error\<close> is the
  integer division by zero that the fan speed formula performs when the two bounds of the
  base range are equal. A \<^verbatim>\<open>store\<close> callback returns a negative errno or \<^verbatim>\<open>count\<close>.
\<close>

datatype show_ret = Fault int | Text string | Divide_Error

text \<open>The end of every \<^verbatim>\<open>store\<close>:
  \<^verbatim>\<open>if (result < 0) return result; return count;\<close>\<close>

definition store_return :: "nat \<Rightarrow> ec \<times> int \<Rightarrow> ec \<times> int" where
  "store_return count sr = (case sr of (s, result) \<Rightarrow> if result < 0 then (s, result) else (s, int count))"

text \<open>\<^verbatim>\<open>#define streq(x, y) (strcmp(x, y) == 0 || strcmp(x, y "\n") == 0)\<close>.
  The input \<open>buf\<close> of a \<^verbatim>\<open>store\<close> is the C string the callback receives: the bytes before
  the first NUL.\<close>

definition streq :: "string \<Rightarrow> string \<Rightarrow> bool" where
  "streq x y = (x = y \<or> x = y @ [CHR 0x0A])"

text \<open>One step of an enumeration \<^verbatim>\<open>store\<close>:
  \<^verbatim>\<open>if (streq(buf, name)) result = ec_write(addr, code);\<close>\<close>

definition write_if_streq :: "string \<Rightarrow> string \<Rightarrow> u8 \<Rightarrow> u8 \<Rightarrow> ec \<times> int \<Rightarrow> ec \<times> int" where
  "write_if_streq buf name addr code sr =
     (case sr of (s, result) \<Rightarrow> if streq buf name then ec_write s addr code else (s, result))"

definition unknown_text :: "u8 \<Rightarrow> string" where
  "unknown_text rdata = ''unknown ('' @ fmt_d 0 (uint rdata) @ '')'' @ [CHR 0x0A]"

subsection \<open>Battery charge thresholds\<close>

definition charge_control_threshold_show :: "constants \<Rightarrow> u8 \<Rightarrow> ec \<Rightarrow> ec \<times> show_ret" where
  "charge_control_threshold_show c offset s =
     (case ec_read s (MSI_EC_CHARGE_CONTROL_ADDRESS c) of
        (s', Inl result) \<Rightarrow> (s', Fault result)
      | (s', Inr rdata) \<Rightarrow> (s', Text (fmt_d 0 (uint rdata - uint offset) @ [CHR 0x0A])))"

definition charge_control_start_threshold_show :: "constants \<Rightarrow> ec \<Rightarrow> ec \<times> show_ret" where
  "charge_control_start_threshold_show c s =
     charge_control_threshold_show c (MSI_EC_CHARGE_CONTROL_OFFSET_START c) s"

definition charge_control_end_threshold_show :: "constants \<Rightarrow> ec \<Rightarrow> ec \<times> show_ret" where
  "charge_control_end_threshold_show c s =
     charge_control_threshold_show c (MSI_EC_CHARGE_CONTROL_OFFSET_END c) s"

text \<open>\<^verbatim>\<open>wdata += offset\<close> is a byte addition: it wraps at 256. The range check compares
  the wrapped byte.\<close>

definition charge_control_threshold_store ::
  "constants \<Rightarrow> u8 \<Rightarrow> ec \<Rightarrow> string \<Rightarrow> nat \<Rightarrow> ec \<times> int" where
  "charge_control_threshold_store c offset s buf count =
     (case kstrtou8 buf of
        Inl result \<Rightarrow> (s, result)
      | Inr wdata0 \<Rightarrow>
          (let wdata = wdata0 + offset
           in if uint wdata < uint (MSI_EC_CHARGE_CONTROL_RANGE_MIN c) \<or>
                 uint wdata > uint (MSI_EC_CHARGE_CONTROL_RANGE_MAX c)
              then (s, - EINVAL)
              else store_return count (ec_write s (MSI_EC_CHARGE_CONTROL_ADDRESS c) wdata)))"

definition charge_control_start_threshold_store ::
  "constants \<Rightarrow> ec \<Rightarrow> string \<Rightarrow> nat \<Rightarrow> ec \<times> int" where
  "charge_control_start_threshold_store c s buf count =
     charge_control_threshold_store c (MSI_EC_CHARGE_CONTROL_OFFSET_START c) s buf count"

definition charge_control_end_threshold_store ::
  "constants \<Rightarrow> ec \<Rightarrow> string \<Rightarrow> nat \<Rightarrow> ec \<times> int" where
  "charge_control_end_threshold_store c s buf count =
     charge_control_threshold_store c (MSI_EC_CHARGE_CONTROL_OFFSET_END c) s buf count"

subsection \<open>Enumerations and toggles of the platform device\<close>

text \<open>A \<^verbatim>\<open>switch\<close> is the chain of its cases in the order of the source (C requires the
  case labels of one \<^verbatim>\<open>switch\<close> to differ, so the order decides nothing there).\<close>

definition webcam_show :: "constants \<Rightarrow> ec \<Rightarrow> ec \<times> show_ret" where
  "webcam_show c s =
     (case ec_read s (MSI_EC_WEBCAM_ADDRESS c) of
        (s', Inl result) \<Rightarrow> (s', Fault result)
      | (s', Inr rdata) \<Rightarrow>
          (s', Text (if rdata = MSI_EC_WEBCAM_ON c then ''on'' @ [CHR 0x0A]
                     else if rdata = MSI_EC_WEBCAM_OFF c then ''off'' @ [CHR 0x0A]
                     else unknown_text rdata)))"

definition webcam_store :: "constants \<Rightarrow> ec \<Rightarrow> string \<Rightarrow> nat \<Rightarrow> ec \<times> int" where
  "webcam_store c s buf count =
     store_return count
       (write_if_streq buf ''off'' (MSI_EC_WEBCAM_ADDRESS c) (MSI_EC_WEBCAM_OFF c)
       (write_if_streq buf ''on'' (MSI_EC_WEBCAM_ADDRESS c) (MSI_EC_WEBCAM_ON c)
          (s, - EINVAL)))"

definition fn_key_show :: "constants \<Rightarrow> ec \<Rightarrow> ec \<times> show_ret" where
  "fn_key_show c s =
     (case ec_read s (MSI_EC_FN_WIN_ADDRESS c) of
        (s', Inl result) \<Rightarrow> (s', Fault result)
      | (s', Inr rdata) \<Rightarrow>
          (s', Text (if rdata = MSI_EC_FN_KEY_LEFT c then ''left'' @ [CHR 0x0A]
                     else if rdata = MSI_EC_FN_KEY_RIGHT c then ''right'' @ [CHR 0x0A]
                     else unknown_text rdata)))"

definition fn_key_store :: "constants \<Rightarrow> ec \<Rightarrow> string \<Rightarrow> nat \<Rightarrow> ec \<times> int" where
  "fn_key_store c s buf count =
     store_return count
       (write_if_streq buf ''right'' (MSI_EC_FN_WIN_ADDRESS c) (MSI_EC_FN_KEY_RIGHT c)
       (write_if_streq buf ''left'' (MSI_EC_FN_WIN_ADDRESS c) (MSI_EC_FN_KEY_LEFT c)
          (s, - EINVAL)))"

definition win_key_show :: "constants \<Rightarrow> ec \<Rightarrow> ec \<times> show_ret" where
  "win_key_show c s =
     (case ec_read s (MSI_EC_FN_WIN_ADDRESS c) of
        (s', Inl result) \<Rightarrow> (s', Fault result)
      | (s', Inr rdata) \<Rightarrow>
          (s', Text (if rdata = MSI_EC_WIN_KEY_LEFT c then ''left'' @ [CHR 0x0A]
                     else if rdata = MSI_EC_WIN_KEY_RIGHT c then ''right'' @ [CHR 0x0A]
                     else unknown_text rdata)))"

definition win_key_store :: "constants \<Rightarrow> ec \<Rightarrow> string \<Rightarrow> nat \<Rightarrow> ec \<times> int" where
  "win_key_store c s buf count =
     store_return count
       (write_if_streq buf ''right'' (MSI_EC_FN_WIN_ADDRESS c) (MSI_EC_WIN_KEY_RIGHT c)
       (write_if_streq buf ''left'' (MSI_EC_FN_WIN_ADDRESS c) (MSI_EC_WIN_KEY_LEFT c)
          (s, - EINVAL)))"

definition battery_mode_show :: "constants \<Rightarrow> ec \<Rightarrow> ec \<times> show_ret" where
  "battery_mode_show c s =
     (case ec_read s (MSI_EC_BATTERY_MODE_ADDRESS c) of
        (s', Inl result) \<Rightarrow> (s', Fault result)
      | (s', Inr rdata) \<Rightarrow>
          (s', Text (if rdata = MSI_EC_BATTERY_MODE_MAX_CHARGE c then ''max'' @ [CHR 0x0A]
                     else if rdata = MSI_EC_BATTERY_MODE_MEDIUM_CHARGE c then ''medium'' @ [CHR 0x0A]
                     else if rdata = MSI_EC_BATTERY_MODE_MIN_CHARGE c then ''min'' @ [CHR 0x0A]
                     else unknown_text rdata)))"

definition battery_mode_store :: "constants \<Rightarrow> ec \<Rightarrow> string \<Rightarrow> nat \<Rightarrow> ec \<times> int" where
  "battery_mode_store c s buf count =
     store_return count
       (write_if_streq buf ''min'' (MSI_EC_BATTERY_MODE_ADDRESS c) (MSI_EC_BATTERY_MODE_MIN_CHARGE c)
       (write_if_streq buf ''medium'' (MSI_EC_BATTERY_MODE_ADDRESS c) (MSI_EC_BATTERY_MODE_MEDIUM_CHARGE c)
       (write_if_streq buf ''max'' (MSI_EC_BATTERY_MODE_ADDRESS c) (MSI_EC_BATTERY_MODE_MAX_CHARGE c)
          (s, - EINVAL))))"

definition cooler_boost_show :: "constants \<Rightarrow> ec \<Rightarrow> ec \<times> show_ret" where
  "cooler_boost_show c s =
     (case ec_read s (MSI_EC_COOLER_BOOST_ADDRESS c) of
        (s', Inl result) \<Rightarrow> (s', Fault result)
      | (s', Inr rdata) \<Rightarrow>
          (s', Text (if rdata = MSI_EC_COOLER_BOOST_ON c then ''on'' @ [CHR 0x0A]
                     else if rdata = MSI_EC_COOLER_BOOST_OFF c then ''off'' @ [CHR 0x0A]
                     else unknown_text rdata)))"

definition cooler_boost_store :: "constants \<Rightarrow> ec \<Rightarrow> string \<Rightarrow> nat \<Rightarrow> ec \<times> int" where
  "cooler_boost_store c s buf count =
     store_return count
       (write_if_streq buf ''off'' (MSI_EC_COOLER_BOOST_ADDRESS c) (MSI_EC_COOLER_BOOST_OFF c)
       (write_if_streq buf ''on'' (MSI_EC_COOLER_BOOST_ADDRESS c) (MSI_EC_COOLER_BOOST_ON c)
          (s, - EINVAL)))"

definition shift_mode_show :: "constants \<Rightarrow> ec \<Rightarrow> ec \<times> show_ret" where
  "shift_mode_show c s =
     (case ec_read s (MSI_EC_SHIFT_MODE_ADDRESS c) of
        (s', Inl result) \<Rightarrow> (s', Fault result)
      | (s', Inr rdata) \<Rightarrow>
          (s', Text (if rdata = MSI_EC_SHIFT_MODE_PERFORMANCE c then ''performance'' @ [CHR 0x0A]
                     else if rdata = MSI_EC_SHIFT_MODE_BALANCED c then ''balanced'' @ [CHR 0x0A]
                     else if rdata = MSI_EC_SHIFT_MODE_ECO c then ''eco'' @ [CHR 0x0A]
                     else if rdata = MSI_EC_SHIFT_MODE_OFF c then ''off'' @ [CHR 0x0A]
                     else unknown_text rdata)))"

definition shift_mode_store :: "constants \<Rightarrow> ec \<Rightarrow> string \<Rightarrow> nat \<Rightarrow> ec \<times> int" where
  "shift_mode_store c s buf count =
     store_return count
       (write_if_streq buf ''off'' (MSI_EC_SHIFT_MODE_ADDRESS c) (MSI_EC_SHIFT_MODE_OFF c)
       (write_if_streq buf ''eco'' (MSI_EC_SHIFT_MODE_ADDRESS c) (MSI_EC_SHIFT_MODE_ECO c)
       (write_if_streq buf ''balanced'' (MSI_EC_SHIFT_MODE_ADDRESS c) (MSI_EC_SHIFT_MODE_BALANCED c)
       (write_if_streq buf ''performance'' (MSI_EC_SHIFT_MODE_ADDRESS c) (MSI_EC_SHIFT_MODE_PERFORMANCE c)
          (s, - EINVAL)))))"

definition fan_mode_show :: "constants \<Rightarrow> ec \<Rightarrow> ec \<times> show_ret" where
  "fan_mode_show c s =
     (case ec_read s (MSI_EC_FAN_MODE_ADDRESS c) of
        (s', Inl result) \<Rightarrow> (s', Fault result)
      | (s', Inr rdata) \<Rightarrow>
          (s', Text (if rdata = MSI_EC_FAN_MODE_SILENT c then ''silent'' @ [CHR 0x0A]
                     else if rdata = MSI_EC_FAN_MODE_BASIC c then ''basic'' @ [CHR 0x0A]
                     else if rdata = MSI_EC_FAN_MODE_ADVANCED c then ''advanced'' @ [CHR 0x0A]
                     else unknown_text rdata)))"

definition fan_mode_store :: "constants \<Rightarrow> ec \<Rightarrow> string \<Rightarrow> nat \<Rightarrow> ec \<times> int" where
  "fan_mode_store c s buf count =
     store_return count
       (write_if_streq buf ''advanced'' (MSI_EC_FAN_MODE_ADDRESS c) (MSI_EC_FAN_MODE_ADVANCED c)
       (write_if_streq buf ''basic'' (MSI_EC_FAN_MODE_ADDRESS c) (MSI_EC_FAN_MODE_BASIC c)
       (write_if_streq buf ''silent'' (MSI_EC_FAN_MODE_ADDRESS c) (MSI_EC_FAN_MODE_SILENT c)
          (s, - EINVAL))))"

text \<open>
  The read-write attributes of \<^verbatim>\<open>msi_root_attrs[]\<close> (\<^verbatim>\<open>DEVICE_ATTR_RW\<close>), with the
  callbacks the table binds to each name.
\<close>

datatype enum_attr = Webcam | Fn_Key | Win_Key | Battery_Mode | Cooler_Boost | Shift_Mode | Fan_Mode

definition enum_show :: "constants \<Rightarrow> enum_attr \<Rightarrow> ec \<Rightarrow> ec \<times> show_ret" where
  "enum_show c a =
     (case a of
        Webcam \<Rightarrow> webcam_show c
      | Fn_Key \<Rightarrow> fn_key_show c
      | Win_Key \<Rightarrow> win_key_show c
      | Battery_Mode \<Rightarrow> battery_mode_show c
      | Cooler_Boost \<Rightarrow> cooler_boost_show c
      | Shift_Mode \<Rightarrow> shift_mode_show c
      | Fan_Mode \<Rightarrow> fan_mode_show c)"

definition enum_store :: "constants \<Rightarrow> enum_attr \<Rightarrow> ec \<Rightarrow> string \<Rightarrow> nat \<Rightarrow> ec \<times> int" where
  "enum_store c a =
     (case a of
        Webcam \<Rightarrow> webcam_store c
      | Fn_Key \<Rightarrow> fn_key_store c
      | Win_Key \<Rightarrow> win_key_store c
      | Battery_Mode \<Rightarrow> battery_mode_store c
      | Cooler_Boost \<Rightarrow> cooler_boost_store c
      | Shift_Mode \<Rightarrow> shift_mode_store c
      | Fan_Mode \<Rightarrow> fan_mode_store c)"

text \<open>The documentation of each of these attributes: its register, and its logical
  names with the register code of each.\<close>

definition enum_address :: "constants \<Rightarrow> enum_attr \<Rightarrow> u8" where
  "enum_address c a =
     (case a of
        Webcam \<Rightarrow> MSI_EC_WEBCAM_ADDRESS c
      | Fn_Key \<Rightarrow> MSI_EC_FN_WIN_ADDRESS c
      | Win_Key \<Rightarrow> MSI_EC_FN_WIN_ADDRESS c
      | Battery_Mode \<Rightarrow> MSI_EC_BATTERY_MODE_ADDRESS c
      | Cooler_Boost \<Rightarrow> MSI_EC_COOLER_BOOST_ADDRESS c
      | Shift_Mode \<Rightarrow> MSI_EC_SHIFT_MODE_ADDRESS c
      | Fan_Mode \<Rightarrow> MSI_EC_FAN_MODE_ADDRESS c)"

definition enum_names :: "constants \<Rightarrow> enum_attr \<Rightarrow> (string \<times> u8) list" where
  "enum_names c a =
     (case a of
        Webcam \<Rightarrow> [(''on'', MSI_EC_WEBCAM_ON c), (''off'', MSI_EC_WEBCAM_OFF c)]
      | Fn_Key \<Rightarrow> [(''left'', MSI_EC_FN_KEY_LEFT c), (''right'', MSI_EC_FN_KEY_RIGHT c)]
      | Win_Key \<Rightarrow> [(''left'', MSI_EC_WIN_KEY_LEFT c), (''right'', MSI_EC_WIN_KEY_RIGHT c)]
      | Battery_Mode \<Rightarrow>
          [(''max'', MSI_EC_BATTERY_MODE_MAX_CHARGE c),
           (''medium'', MSI_EC_BATTERY_MODE_MEDIUM_CHARGE c),
           (''min'', MSI_EC_BATTERY_MODE_MIN_CHARGE c)]
      | Cooler_Boost \<Rightarrow> [(''on'', MSI_EC_COOLER_BOOST_ON c), (''off'', MSI_EC_COOLER_BOOST_OFF c)]
      | Shift_Mode \<Rightarrow>
          [(''performance'', MSI_EC_SHIFT_MODE_PERFORMANCE c),
           (''balanced'', MSI_EC_SHIFT_MODE_BALANCED c),
           (''eco'', MSI_EC_SHIFT_MODE_ECO c),
           (''off'', MSI_EC_SHIFT_MODE_OFF c)]
      | Fan_Mode \<Rightarrow>
          [(''silent'', MSI_EC_FAN_MODE_SILENT c),
           (''basic'', MSI_EC_FAN_MODE_BASIC c),
           (''advanced'', MSI_EC_FAN_MODE_ADVANCED c)])"

subsection \<open>Firmware version and release date\<close>

text \<open>The arrays have one byte more than is read and are zeroed first, so the bytes read
  form a C string.\<close>

definition fw_version_show :: "constants \<Rightarrow> ec \<Rightarrow> (ec \<times> show_ret) option" where
  "fw_version_show c s =
     (case ec_read_seq s (MSI_EC_FW_VERSION_ADDRESS c) (\<lambda>_. 0) (int (MSI_EC_FW_VERSION_LENGTH c)) of
        None \<Rightarrow> None
      | Some (s', result, rdata) \<Rightarrow>
          if result < 0 then Some (s', Fault result)
          else Some (s', Text (c_string rdata (MSI_EC_FW_VERSION_LENGTH c + 1) @ [CHR 0x0A])))"

text \<open>
  \<^verbatim>\<open>int year, month, day, hour, minute, second;\<close> are not initialised, and the value
  \<^verbatim>\<open>sscanf\<close> returns is not looked at: a variable that \<^verbatim>\<open>sscanf\<close> does not assign is
  printed with the content it happened to have. That content is the parameter \<open>l\<close>.
\<close>

record locals =
  year :: int
  month :: int
  day :: int
  hour :: int
  minute :: int
  second :: int

definition fw_release_date_show :: "constants \<Rightarrow> locals \<Rightarrow> ec \<Rightarrow> (ec \<times> show_ret) option" where
  "fw_release_date_show c l s =
     (case ec_read_seq s (MSI_EC_FW_DATE_ADDRESS c) (\<lambda>_. 0) (int (MSI_EC_FW_DATE_LENGTH c)) of
        None \<Rightarrow> None
      | Some (s1, result, rdate) \<Rightarrow>
          if result < 0 then Some (s1, Fault result)
          else
            (let mdy = assigned
                   (vsscanf (c_string rdate (MSI_EC_FW_DATE_LENGTH c + 1))
                      [Conv_d 2, Conv_d 2, Conv_d 4])
                   [month l, day l, year l]
             in case ec_read_seq s1 (MSI_EC_FW_TIME_ADDRESS c) (\<lambda>_. 0)
                       (int (MSI_EC_FW_TIME_LENGTH c)) of
                  None \<Rightarrow> None
                | Some (s2, result, rtime) \<Rightarrow>
                    if result < 0 then Some (s2, Fault result)
                    else
                      (let hms = assigned
                             (vsscanf (c_string rtime (MSI_EC_FW_TIME_LENGTH c + 1))
                                [Conv_d 2, Lit CHR '':'', Conv_d 2, Lit CHR '':'', Conv_d 2])
                             [hour l, minute l, second l]
                       in Some (s2, Text (fmt_d 4 (mdy ! 2) @ ''/'' @ fmt_d 2 (mdy ! 0) @ ''/''
                                   @ fmt_d 2 (mdy ! 1) @ '' '' @ fmt_d 2 (hms ! 0) @ '':''
                                   @ fmt_d 2 (hms ! 1) @ '':'' @ fmt_d 2 (hms ! 2)
                                   @ [CHR 0x0A])))))"

subsection \<open>CPU and GPU attributes\<close>

definition cpu_realtime_temperature_show :: "constants \<Rightarrow> ec \<Rightarrow> ec \<times> show_ret" where
  "cpu_realtime_temperature_show c s =
     (case ec_read s (MSI_EC_CPU_REALTIME_TEMPERATURE_ADDRESS c) of
        (s', Inl result) \<Rightarrow> (s', Fault result)
      | (s', Inr rdata) \<Rightarrow> (s', Text (fmt_d 0 (uint rdata) @ [CHR 0x0A])))"

definition cpu_realtime_fan_speed_show :: "constants \<Rightarrow> ec \<Rightarrow> ec \<times> show_ret" where
  "cpu_realtime_fan_speed_show c s =
     (case ec_read s (MSI_EC_CPU_REALTIME_FAN_SPEED_ADDRESS c) of
        (s', Inl result) \<Rightarrow> (s', Fault result)
      | (s', Inr rdata) \<Rightarrow>
          if uint rdata < uint (MSI_EC_CPU_REALTIME_FAN_SPEED_BASE_MIN c) \<or>
             uint rdata > uint (MSI_EC_CPU_REALTIME_FAN_SPEED_BASE_MAX c)
          then (s', Fault (- EINVAL))
          else if uint (MSI_EC_CPU_REALTIME_FAN_SPEED_BASE_MAX c) -
                  uint (MSI_EC_CPU_REALTIME_FAN_SPEED_BASE_MIN c) = 0
          then (s', Divide_Error)
          else (s', Text (fmt_d 0
                  (c_div (100 * (uint rdata - uint (MSI_EC_CPU_REALTIME_FAN_SPEED_BASE_MIN c)))
                     (uint (MSI_EC_CPU_REALTIME_FAN_SPEED_BASE_MAX c) -
                      uint (MSI_EC_CPU_REALTIME_FAN_SPEED_BASE_MIN c))) @ [CHR 0x0A])))"

definition cpu_basic_fan_speed_show :: "constants \<Rightarrow> ec \<Rightarrow> ec \<times> show_ret" where
  "cpu_basic_fan_speed_show c s =
     (case ec_read s (MSI_EC_CPU_BASIC_FAN_SPEED_ADDRESS c) of
        (s', Inl result) \<Rightarrow> (s', Fault result)
      | (s', Inr rdata) \<Rightarrow>
          if uint rdata < uint (MSI_EC_CPU_BASIC_FAN_SPEED_BASE_MIN c) \<or>
             uint rdata > uint (MSI_EC_CPU_BASIC_FAN_SPEED_BASE_MAX c)
          then (s', Fault (- EINVAL))
          else if uint (MSI_EC_CPU_BASIC_FAN_SPEED_BASE_MAX c) -
                  uint (MSI_EC_CPU_BASIC_FAN_SPEED_BASE_MIN c) = 0
          then (s', Divide_Error)
          else (s', Text (fmt_d 0
                  (c_div (100 * (uint rdata - uint (MSI_EC_CPU_BASIC_FAN_SPEED_BASE_MIN c)))
                     (uint (MSI_EC_CPU_BASIC_FAN_SPEED_BASE_MAX c) -
                      uint (MSI_EC_CPU_BASIC_FAN_SPEED_BASE_MIN c))) @ [CHR 0x0A])))"

text \<open>The value computed in \<^verbatim>\<open>int\<close> is cut to a byte when it is passed to
  \<^verbatim>\<open>ec_write\<close>.\<close>

definition cpu_basic_fan_speed_store :: "constants \<Rightarrow> ec \<Rightarrow> string \<Rightarrow> nat \<Rightarrow> ec \<times> int" where
  "cpu_basic_fan_speed_store c s buf count =
     (case kstrtou8 buf of
        Inl result \<Rightarrow> (s, result)
      | Inr wdata \<Rightarrow>
          if uint wdata > 100 then (s, - EINVAL)
          else store_return count
                 (ec_write s (MSI_EC_CPU_BASIC_FAN_SPEED_ADDRESS c)
                    (word_of_int
                       (c_div (uint wdata * (uint (MSI_EC_CPU_BASIC_FAN_SPEED_BASE_MAX c) -
                                             uint (MSI_EC_CPU_BASIC_FAN_SPEED_BASE_MIN c)) +
                               100 * uint (MSI_EC_CPU_BASIC_FAN_SPEED_BASE_MIN c))
                          100))))"

definition gpu_realtime_temperature_show :: "constants \<Rightarrow> ec \<Rightarrow> ec \<times> show_ret" where
  "gpu_realtime_temperature_show c s =
     (case ec_read s (MSI_EC_GPU_REALTIME_TEMPERATURE_ADDRESS c) of
        (s', Inl result) \<Rightarrow> (s', Fault result)
      | (s', Inr rdata) \<Rightarrow> (s', Text (fmt_d 0 (uint rdata) @ [CHR 0x0A])))"

definition gpu_realtime_fan_speed_show :: "constants \<Rightarrow> ec \<Rightarrow> ec \<times> show_ret" where
  "gpu_realtime_fan_speed_show c s =
     (case ec_read s (MSI_EC_GPU_REALTIME_FAN_SPEED_ADDRESS c) of
        (s', Inl result) \<Rightarrow> (s', Fault result)
      | (s', Inr rdata) \<Rightarrow> (s', Text (fmt_d 0 (uint rdata) @ [CHR 0x0A])))"

subsection \<open>LED class devices\<close>

text \<open>\<^verbatim>\<open>enum led_brightness\<close> is an integer. The setters return 0 or a negative errno;
  \<^verbatim>\<open>kbd_bl_sysfs_get\<close> returns a brightness.\<close>

definition micmute_led_sysfs_set :: "constants \<Rightarrow> ec \<Rightarrow> int \<Rightarrow> ec \<times> int" where
  "micmute_led_sysfs_set c s brightness =
     (let state = (if brightness \<noteq> 0 then MSI_EC_MIC_LED_STATE_ON c else MSI_EC_MIC_LED_STATE_OFF c)
      in case ec_write s (MSI_EC_LED_MICMUTE_ADDRESS c) state of
           (s', result) \<Rightarrow> if result < 0 then (s', result) else (s', 0))"

definition mute_led_sysfs_set :: "constants \<Rightarrow> ec \<Rightarrow> int \<Rightarrow> ec \<times> int" where
  "mute_led_sysfs_set c s brightness =
     (let state = (if brightness \<noteq> 0 then MSI_EC_MUTE_LED_STATE_ON c else MSI_EC_MUTE_LED_STATE_OFF c)
      in case ec_write s (MSI_EC_LED_MUTE_ADDRESS c) state of
           (s', result) \<Rightarrow> if result < 0 then (s', result) else (s', 0))"

definition kbd_bl_sysfs_get :: "constants \<Rightarrow> ec \<Rightarrow> ec \<times> int" where
  "kbd_bl_sysfs_get c s =
     (case ec_read s (MSI_EC_KBD_BL_ADDRESS c) of
        (s', Inl result) \<Rightarrow> (s', 0)
      | (s', Inr rdata) \<Rightarrow> (s', uint (rdata AND MSI_EC_KBD_BL_STATE_MASK c)))"

definition kbd_bl_sysfs_set :: "constants \<Rightarrow> ec \<Rightarrow> int \<Rightarrow> ec \<times> int" where
  "kbd_bl_sysfs_set c s brightness =
     (if brightness < 0 \<or> brightness > 3 then (s, - 1)
      else ec_write s (MSI_EC_KBD_BL_ADDRESS c) (MSI_EC_KBD_BL_STATE c (nat brightness)))"

subsection \<open>Reading and faulting runs\<close>

text \<open>
  \<open>reads_ok s t addr n\<close>: the \<open>n\<close> reads of \<open>addr\<close>, \<open>addr + 1\<close>, ... made as the transport
  calls number \<open>t\<close>, \<open>t + 1\<close>, ... all succeed. \<open>first_fault s t addr k e\<close>: the first
  \<open>k\<close> of them succeed and the next one fails with errno \<open>e\<close>.
\<close>

definition reads_ok :: "ec \<Rightarrow> nat \<Rightarrow> u8 \<Rightarrow> nat \<Rightarrow> bool" where
  "reads_ok s t addr n = list_all (\<lambda>j. rd_errno s (t + j) (addr + of_nat j) = 0) [0..<n]"

definition first_fault :: "ec \<Rightarrow> nat \<Rightarrow> u8 \<Rightarrow> nat \<Rightarrow> nat \<Rightarrow> bool" where
  "first_fault s t addr k e =
     (reads_ok s t addr k \<and> rd_errno s (t + k) (addr + of_nat k) = e \<and> e \<noteq> 0)"

text \<open>The reads that a run of the sequential reader over \<open>n\<close> registers logs.\<close>

definition seq_reads :: "u8 \<Rightarrow> nat \<Rightarrow> ec_op list" where
  "seq_reads addr n = map (\<lambda>j. Ec_Read (addr + of_nat j)) [0..<n]"

subsection \<open>An example configuration and example controllers\<close>

text \<open>The constants are specific to a machine. This configuration is an illustration used
  to evaluate the functions on concrete inputs; the base range of its basic fan speed is
  the one of the specification's end-to-end example.\<close>

definition cfg :: constants where
  "cfg = \<lparr>
     MSI_EC_CHARGE_CONTROL_ADDRESS = 0xEF,
     MSI_EC_CHARGE_CONTROL_OFFSET_START = 0x8A,
     MSI_EC_CHARGE_CONTROL_OFFSET_END = 0x80,
     MSI_EC_CHARGE_CONTROL_RANGE_MIN = 0x8A,
     MSI_EC_CHARGE_CONTROL_RANGE_MAX = 0xE4,
     MSI_EC_WEBCAM_ADDRESS = 0x2E,
     MSI_EC_WEBCAM_ON = 0x4A,
     MSI_EC_WEBCAM_OFF = 0x48,
     MSI_EC_FN_WIN_ADDRESS = 0xBF,
     MSI_EC_FN_KEY_LEFT = 0x40,
     MSI_EC_FN_KEY_RIGHT = 0x50,
     MSI_EC_WIN_KEY_LEFT = 0x50,
     MSI_EC_WIN_KEY_RIGHT = 0x40,
     MSI_EC_BATTERY_MODE_ADDRESS = 0xEF,
     MSI_EC_BATTERY_MODE_MAX_CHARGE = 0xE4,
     MSI_EC_BATTERY_MODE_MEDIUM_CHARGE = 0xD0,
     MSI_EC_BATTERY_MODE_MIN_CHARGE = 0xBC,
     MSI_EC_COOLER_BOOST_ADDRESS = 0x98,
     MSI_EC_COOLER_BOOST_ON = 0x82,
     MSI_EC_COOLER_BOOST_OFF = 0x02,
     MSI_EC_SHIFT_MODE_ADDRESS = 0xF2,
     MSI_EC_SHIFT_MODE_PERFORMANCE = 0xC4,
     MSI_EC_SHIFT_MODE_BALANCED = 0xC1,
     MSI_EC_SHIFT_MODE_ECO = 0xC2,
     MSI_EC_SHIFT_MODE_OFF = 0x80,
     MSI_EC_FAN_MODE_ADDRESS = 0xF4,
     MSI_EC_FAN_MODE_SILENT = 0x1D,
     MSI_EC_FAN_MODE_BASIC = 0x4D,
     MSI_EC_FAN_MODE_ADVANCED = 0x8D,
     MSI_EC_FW_VERSION_ADDRESS = 0xA0,
     MSI_EC_FW_VERSION_LENGTH = 12,
     MSI_EC_FW_DATE_ADDRESS = 0xAC,
     MSI_EC_FW_DATE_LENGTH = 8,
     MSI_EC_FW_TIME_ADDRESS = 0xB4,
     MSI_EC_FW_TIME_LENGTH = 8,
     MSI_EC_CPU_REALTIME_TEMPERATURE_ADDRESS = 0x68,
     MSI_EC_CPU_REALTIME_FAN_SPEED_ADDRESS = 0x71,
     MSI_EC_CPU_REALTIME_FAN_SPEED_BASE_MIN = 0x19,
     MSI_EC_CPU_REALTIME_FAN_SPEED_BASE_MAX = 0x37,
     MSI_EC_CPU_BASIC_FAN_SPEED_ADDRESS = 0x89,
     MSI_EC_CPU_BASIC_FAN_SPEED_BASE_MIN = 0x00,
     MSI_EC_CPU_BASIC_FAN_SPEED_BASE_MAX = 0x96,
     MSI_EC_GPU_REALTIME_TEMPERATURE_ADDRESS = 0x80,
     MSI_EC_GPU_REALTIME_FAN_SPEED_ADDRESS = 0x8B,
     MSI_EC_LED_MICMUTE_ADDRESS = 0x2B,
     MSI_EC_MIC_LED_STATE_ON = 0x84,
     MSI_EC_MIC_LED_STATE_OFF = 0x80,
     MSI_EC_LED_MUTE_ADDRESS = 0x2C,
     MSI_EC_MUTE_LED_STATE_ON = 0x84,
     MSI_EC_MUTE_LED_STATE_OFF = 0x80,
     MSI_EC_KBD_BL_ADDRESS = 0xF3,
     MSI_EC_KBD_BL_STATE_MASK = 0x03,
     MSI_EC_KBD_BL_STATE = (\<lambda>level. 0x80 + of_nat level)
   \<rparr>"

text \<open>A controller on which every transport call succeeds, and controllers on which the
  transport call number \<open>t\<close> fails with errno \<open>e\<close> when it is a read (a write).\<close>

definition ec_ok :: "(u8 \<Rightarrow> u8) \<Rightarrow> ec" where
  "ec_ok rs = \<lparr>regs = rs, rd_errno = (\<lambda>_ _. 0), wr_errno = (\<lambda>_ _. 0), trace = []\<rparr>"

definition ec_rd_fault :: "(u8 \<Rightarrow> u8) \<Rightarrow> nat \<Rightarrow> nat \<Rightarrow> ec" where
  "ec_rd_fault rs t e =
     \<lparr>regs = rs, rd_errno = (\<lambda>t' _. if t' = t then e else 0), wr_errno = (\<lambda>_ _. 0), trace = []\<rparr>"

definition ec_wr_fault :: "(u8 \<Rightarrow> u8) \<Rightarrow> nat \<Rightarrow> nat \<Rightarrow> ec" where
  "ec_wr_fault rs t e =
     \<lparr>regs = rs, rd_errno = (\<lambda>_ _. 0), wr_errno = (\<lambda>t' _. if t' = t then e else 0), trace = []\<rparr>"

text \<open>Contents for the local variables of \<^verbatim>\<open>fw_release_date_show\<close>.\<close>

definition zero_locals :: locals where
  "zero_locals = \<lparr>year = 0, month = 0, day = 0, hour = 0, minute = 0, second = 0\<rparr>"

text \<open>A register file in which every register holds the same byte.\<close>

definition all_regs :: "u8 \<Rightarrow> u8 \<Rightarrow> u8" where
  "all_regs v addr = v"



text \<open>A register file with the bytes \<open>bs\<close> stored from address \<open>base\<close> on.\<close>

definition load_bytes :: "u8 \<Rightarrow> u8 list \<Rightarrow> (u8 \<Rightarrow> u8) \<Rightarrow> (u8 \<Rightarrow> u8)" where
  "load_bytes base bs rs =
     (\<lambda>addr. if unat (addr - base) < length bs then bs ! unat (addr - base) else rs addr)"

text \<open>Firmware registers (date at 0xAC, time at 0xB4) with a release date whose year is
  not numeric, and with a well-formed release date.\<close>

definition regs_bad_year :: "u8 \<Rightarrow> u8" where
  "regs_bad_year =
     load_bytes 0xAC (bytes_of ''0704ABCD'') (load_bytes 0xB4 (bytes_of ''13:05:59'') (all_regs 0))"

definition regs_good_date :: "u8 \<Rightarrow> u8" where
  "regs_good_date =
     load_bytes 0xAC (bytes_of ''07042024'') (load_bytes 0xB4 (bytes_of ''13:05:59'') (all_regs 0))"

section \<open>Properties\<close>

subsection \<open>The transport and the sequential reader\<close>

lemma uint_of_nat_u8: "i \<le> 255 \<Longrightarrow> uint (of_nat i :: u8) = int i"
  by (simp add: uint_nat unat_of_nat)

lemma unat_of_nat_u8: "i \<le> 255 \<Longrightarrow> unat (of_nat i :: u8) = i"
  by (simp add: unat_of_nat)

lemma ec_read_ok:
  "rd_errno s (length (trace s)) a = 0 \<Longrightarrow>
   ec_read s a = (s\<lparr>trace := trace s @ [Ec_Read a]\<rparr>, Inr (regs s a))"
  by (simp add: ec_read_def)

lemma ec_read_fault:
  "rd_errno s (length (trace s)) a = e \<Longrightarrow> e \<noteq> 0 \<Longrightarrow>
   ec_read s a = (s\<lparr>trace := trace s @ [Ec_Read a]\<rparr>, Inl (- int e))"
  by (simp add: ec_read_def)

lemma ec_read_seq_loop_ok:
  "n \<le> 255 \<Longrightarrow> i \<le> n \<Longrightarrow>
   \<forall>j. i \<le> j \<and> j < n \<longrightarrow> rd_errno s (length (trace s) + (j - i)) (addr + of_nat j) = 0 \<Longrightarrow>
   ec_read_seq_loop s addr buf (int n) (of_nat i) =
     Some (s\<lparr>trace := trace s @ map (\<lambda>j. Ec_Read (addr + of_nat j)) [i..<n]\<rparr>, 0,
           \<lambda>x. if i \<le> x \<and> x < n then regs s (addr + of_nat x) else buf x)"
proof (induction "n - i" arbitrary: i s buf)
  case 0
  then have "i = n" by simp
  with 0 show ?case
    by (subst ec_read_seq_loop.simps) (auto simp: uint_of_nat_u8 fun_eq_iff)
next
  case (Suc d)
  then have lt: "i < n" and i255: "i \<le> 255" by simp_all
  from Suc.prems lt have rd: "rd_errno s (length (trace s)) (addr + of_nat i) = 0"
    by (metis add.right_neutral diff_self_eq_0 le_refl)
  let ?s' = "s\<lparr>trace := trace s @ [Ec_Read (addr + of_nat i)]\<rparr>"
  let ?buf' = "buf(i := regs s (addr + of_nat i))"
  have d: "d = n - Suc i" using Suc.hyps(2) by simp
  have pre: "\<forall>j. Suc i \<le> j \<and> j < n \<longrightarrow>
      rd_errno ?s' (length (trace ?s') + (j - Suc i)) (addr + of_nat j) = 0"
  proof (intro allI impI)
    fix j assume j: "Suc i \<le> j \<and> j < n"
    then have "j - i = Suc (j - Suc i)" by arith
    then have "length (trace s) + (j - i) = length (trace ?s') + (j - Suc i)" by simp
    moreover from j Suc.prems(3) have "rd_errno s (length (trace s) + (j - i)) (addr + of_nat j) = 0"
      by simp
    ultimately show "rd_errno ?s' (length (trace ?s') + (j - Suc i)) (addr + of_nat j) = 0"
      by simp
  qed
  have IH: "ec_read_seq_loop ?s' addr ?buf' (int n) (of_nat (Suc i)) =
     Some (?s'\<lparr>trace := trace ?s' @ map (\<lambda>j. Ec_Read (addr + of_nat j)) [Suc i..<n]\<rparr>, 0,
           \<lambda>x. if Suc i \<le> x \<and> x < n then regs ?s' (addr + of_nat x) else ?buf' x)"
    using Suc.hyps(1) [OF d Suc.prems(1) _ pre] lt by simp
  have step: "ec_read_seq_loop s addr buf (int n) (of_nat i) =
      ec_read_seq_loop ?s' addr ?buf' (int n) (of_nat i + 1)"
    using lt i255 rd
    by (subst ec_read_seq_loop.simps) (simp add: uint_of_nat_u8 unat_of_nat_u8 ec_read_ok)
  have buf_eq: "(\<lambda>x. if Suc i \<le> x \<and> x < n then regs ?s' (addr + of_nat x) else ?buf' x) =
      (\<lambda>x. if i \<le> x \<and> x < n then regs s (addr + of_nat x) else buf x)"
    using lt by (auto simp: fun_eq_iff)
  have suc: "(of_nat i + 1 :: u8) = of_nat (Suc i)" by simp
  show ?case
    unfolding step suc IH buf_eq using lt by (simp add: upt_conv_Cons)
qed

lemma ec_read_seq_loop_fault:
  "k \<le> 255 \<Longrightarrow> i \<le> k \<Longrightarrow> int k < len \<Longrightarrow>
   \<forall>j. i \<le> j \<and> j < k \<longrightarrow> rd_errno s (length (trace s) + (j - i)) (addr + of_nat j) = 0 \<Longrightarrow>
   rd_errno s (length (trace s) + (k - i)) (addr + of_nat k) = e \<Longrightarrow> e \<noteq> 0 \<Longrightarrow>
   ec_read_seq_loop s addr buf len (of_nat i) =
     Some (s\<lparr>trace := trace s @ map (\<lambda>j. Ec_Read (addr + of_nat j)) [i..<Suc k]\<rparr>, - int e,
           \<lambda>x. if i \<le> x \<and> x < k then regs s (addr + of_nat x) else buf x)"
proof (induction "k - i" arbitrary: i s buf)
  case 0
  then have ik: "i = k" by simp
  with 0 have rd: "rd_errno s (length (trace s)) (addr + of_nat k) = e" by simp
  show ?case
    using 0 ik
    by (subst ec_read_seq_loop.simps) (auto simp: uint_of_nat_u8 fun_eq_iff ec_read_fault [OF rd])
next
  case (Suc d)
  then have lt: "i < k" and i255: "i \<le> 255" by simp_all
  from Suc.prems lt have rd: "rd_errno s (length (trace s)) (addr + of_nat i) = 0"
    by (metis add.right_neutral diff_self_eq_0 le_refl)
  let ?s' = "s\<lparr>trace := trace s @ [Ec_Read (addr + of_nat i)]\<rparr>"
  let ?buf' = "buf(i := regs s (addr + of_nat i))"
  have d: "d = k - Suc i" using Suc.hyps(2) by simp
  have pre: "\<forall>j. Suc i \<le> j \<and> j < k \<longrightarrow>
      rd_errno ?s' (length (trace ?s') + (j - Suc i)) (addr + of_nat j) = 0"
  proof (intro allI impI)
    fix j assume j: "Suc i \<le> j \<and> j < k"
    then have "j - i = Suc (j - Suc i)" by arith
    then have "length (trace s) + (j - i) = length (trace ?s') + (j - Suc i)" by simp
    moreover from j Suc.prems(4) have "rd_errno s (length (trace s) + (j - i)) (addr + of_nat j) = 0"
      by simp
    ultimately show "rd_errno ?s' (length (trace ?s') + (j - Suc i)) (addr + of_nat j) = 0"
      by simp
  qed
  have "k - i = Suc (k - Suc i)" using lt by arith
  then have "length (trace s) + (k - i) = length (trace ?s') + (k - Suc i)" by simp
  with Suc.prems(5) have last: "rd_errno ?s' (length (trace ?s') + (k - Suc i)) (addr + of_nat k) = e"
    by simp
  have IH: "ec_read_seq_loop ?s' addr ?buf' len (of_nat (Suc i)) =
     Some (?s'\<lparr>trace := trace ?s' @ map (\<lambda>j. Ec_Read (addr + of_nat j)) [Suc i..<Suc k]\<rparr>, - int e,
           \<lambda>x. if Suc i \<le> x \<and> x < k then regs ?s' (addr + of_nat x) else ?buf' x)"
    using Suc.hyps(1) [OF d Suc.prems(1) _ Suc.prems(3) pre last Suc.prems(6)] lt by simp
  have step: "ec_read_seq_loop s addr buf len (of_nat i) =
      ec_read_seq_loop ?s' addr ?buf' len (of_nat i + 1)"
    using lt i255 rd Suc.prems(3)
    by (subst ec_read_seq_loop.simps) (simp add: uint_of_nat_u8 unat_of_nat_u8 ec_read_ok)
  have buf_eq: "(\<lambda>x. if Suc i \<le> x \<and> x < k then regs ?s' (addr + of_nat x) else ?buf' x) =
      (\<lambda>x. if i \<le> x \<and> x < k then regs s (addr + of_nat x) else buf x)"
    using lt by (auto simp: fun_eq_iff)
  have "[i..<Suc k] = i # [Suc i..<Suc k]" using lt by (simp add: upt_conv_Cons)
  moreover have suc: "(of_nat i + 1 :: u8) = of_nat (Suc i)" by simp
  ultimately show ?case
    unfolding step suc IH buf_eq by simp
qed

lemma ec_read_seq_loop_diverges:
  assumes "ec_read_seq_loop s addr buf len i = Some y"
  shows "\<not> (256 \<le> len \<and> (\<forall>t a. rd_errno s t a = 0))"
proof (rule ec_read_seq_loop.raw_induct
    [where P = "\<lambda>s addr buf len i y. \<not> (256 \<le> len \<and> (\<forall>t a. rd_errno s t a = 0))", OF _ assms])
  fix f s addr buf len and i :: u8 and y
  assume IH: "\<And>s addr buf len i y. f s addr buf len i = Some y \<Longrightarrow>
      \<not> (256 \<le> len \<and> (\<forall>t a. rd_errno s t a = 0))"
    and body: "(if uint i < len
      then case ec_read s (addr + i) of
           (s', Inl result) \<Rightarrow> Some (s', result, buf)
           | (s', Inr val) \<Rightarrow> f s' addr (buf(unat i := val)) len (i + 1)
      else Some (s, 0, buf)) = Some y"
  show "\<not> (256 \<le> len \<and> (\<forall>t a. rd_errno s t a = 0))"
  proof
    assume c: "256 \<le> len \<and> (\<forall>t a. rd_errno s t a = 0)"
    have "uint i < 256" using uint_bounded [of i] by simp
    with c have lt: "uint i < len" by simp
    let ?s' = "s\<lparr>trace := trace s @ [Ec_Read (addr + i)]\<rparr>"
    from c have rd: "ec_read s (addr + i) = (?s', Inr (regs s (addr + i)))"
      by (simp add: ec_read_ok)
    from body lt rd have "f ?s' addr (buf(unat i := regs s (addr + i))) len (i + 1) = Some y"
      by simp
    from IH [OF this] have "\<not> (256 \<le> len \<and> (\<forall>t a. rd_errno ?s' t a = 0))" .
    with c show False by simp
  qed
qed

lemma reads_ok_iff: "reads_ok s t addr n \<longleftrightarrow> (\<forall>j<n. rd_errno s (t + j) (addr + of_nat j) = 0)"
  by (auto simp: reads_ok_def list_all_iff)

lemma ec_read_seq_ok:
  assumes "n \<le> 255" "reads_ok s (length (trace s)) addr n"
  shows "ec_read_seq s addr buf (int n) =
     Some (s\<lparr>trace := trace s @ seq_reads addr n\<rparr>, 0,
           \<lambda>x. if x < n then regs s (addr + of_nat x) else buf x)"
  using ec_read_seq_loop_ok [of n 0 s addr buf] assms
  by (simp add: ec_read_seq_def reads_ok_iff seq_reads_def)

lemma ec_read_seq_fault:
  assumes "k \<le> 255" "int k < len" "first_fault s (length (trace s)) addr k e"
  shows "ec_read_seq s addr buf len =
     Some (s\<lparr>trace := trace s @ seq_reads addr (Suc k)\<rparr>, - int e,
           \<lambda>x. if x < k then regs s (addr + of_nat x) else buf x)"
  using ec_read_seq_loop_fault [of k 0 len s addr e buf] assms
  by (simp add: ec_read_seq_def reads_ok_iff seq_reads_def first_fault_def)

lemma ec_read_seq_diverges:
  "256 \<le> len \<Longrightarrow> \<forall>t a. rd_errno s t a = 0 \<Longrightarrow> ec_read_seq s addr buf len = None"
  using ec_read_seq_loop_diverges [of s addr buf len 0]
  by (cases "ec_read_seq s addr buf len") (auto simp: ec_read_seq_def)

lemma ec_read_seq_nonpos: "len \<le> 0 \<Longrightarrow> ec_read_seq s addr buf len = Some (s, 0, buf)"
  unfolding ec_read_seq_def by (subst ec_read_seq_loop.simps) simp

text \<open>Within a byte-sized length the reader returns, whatever the transport does.\<close>

lemma ec_read_seq_cases:
  assumes "n \<le> 255"
  shows "reads_ok s (length (trace s)) addr n \<or>
         (\<exists>k e. k < n \<and> first_fault s (length (trace s)) addr k e)"
proof (cases "reads_ok s (length (trace s)) addr n")
  case True
  then show ?thesis by simp
next
  case False
  define B where "B = (\<lambda>j. j < n \<and> rd_errno s (length (trace s) + j) (addr + of_nat j) \<noteq> 0)"
  from False have ex: "\<exists>j. B j" by (auto simp: reads_ok_iff B_def)
  define k where "k = (LEAST j. B j)"
  from ex have Bk: "B k" unfolding k_def by (metis LeastI)
  have min: "\<And>j. j < k \<Longrightarrow> \<not> B j" unfolding k_def by (rule not_less_Least)
  have "first_fault s (length (trace s)) addr k (rd_errno s (length (trace s) + k) (addr + of_nat k))"
    using Bk min unfolding first_fault_def reads_ok_iff B_def by force
  with Bk show ?thesis unfolding B_def by blast
qed

lemma ec_read_seq_returns:
  assumes "n \<le> 255"
  shows "\<exists>y. ec_read_seq s addr buf (int n) = Some y"
  using ec_read_seq_cases [OF assms, of s addr]
proof
  assume "reads_ok s (length (trace s)) addr n"
  from ec_read_seq_ok [OF assms this] show ?thesis by blast
next
  assume "\<exists>k e. k < n \<and> first_fault s (length (trace s)) addr k e"
  then obtain k e where k: "k < n" and f: "first_fault s (length (trace s)) addr k e" by blast
  from k assms have "k \<le> 255" "int k < int n" by simp_all
  from ec_read_seq_fault [OF this f] show ?thesis by blast
qed

lemma fw_version_show_returns:
  "MSI_EC_FW_VERSION_LENGTH c \<le> 255 \<Longrightarrow> \<exists>y. fw_version_show c s = Some y"
  using ec_read_seq_returns [of "MSI_EC_FW_VERSION_LENGTH c" s "MSI_EC_FW_VERSION_ADDRESS c" "\<lambda>_. 0"]
  by (auto simp: fw_version_show_def)

lemma fw_release_date_show_returns:
  assumes "MSI_EC_FW_DATE_LENGTH c \<le> 255" "MSI_EC_FW_TIME_LENGTH c \<le> 255"
  shows "\<exists>y. fw_release_date_show c l s = Some y"
proof -
  from ec_read_seq_returns [OF assms(1)] obtain s1 r1 b1 where
    1: "ec_read_seq s (MSI_EC_FW_DATE_ADDRESS c) (\<lambda>_. 0) (int (MSI_EC_FW_DATE_LENGTH c)) = Some (s1, r1, b1)"
    by (metis prod_cases3)
  from ec_read_seq_returns [OF assms(2)] obtain s2 r2 b2 where
    2: "ec_read_seq s1 (MSI_EC_FW_TIME_ADDRESS c) (\<lambda>_. 0) (int (MSI_EC_FW_TIME_LENGTH c)) = Some (s2, r2, b2)"
    by (metis prod_cases3)
  show ?thesis
    by (simp add: fw_release_date_show_def 1 2 Let_def)
qed

subsection \<open>C10: the byte-wide loop counter\<close>

text \<open>
  Claim C10. The loop counter of \<^verbatim>\<open>ec_read_seq\<close> is a byte compared with an \<^verbatim>\<open>int\<close>
  length. For \<open>0 \<le> len \<le> 255\<close>, when all reads succeed, the call returns 0 after exactly
  \<open>len\<close> transport reads, made in ascending address order. For \<open>len \<ge> 256\<close> the counter
  wraps and, when all reads succeed, the call never returns. The two callers pass the
  length constants of \<^verbatim>\<open>constants.h\<close>: each returns whenever its constants are at most
  255, and does not return, on a transport without faults, when its first length is 256
  or more.
\<close>

theorem ec_read_seq_u8_counter:
  "(0 \<le> len \<and> len \<le> 255 \<and> reads_ok s (length (trace s)) addr (nat len) \<longrightarrow>
      (\<exists>s' buf'. ec_read_seq s addr buf len = Some (s', 0, buf') \<and>
         trace s' = trace s @ seq_reads addr (nat len) \<and>
         length (trace s') = length (trace s) + nat len)) \<and>
   (256 \<le> len \<and> (\<forall>t a. rd_errno s t a = 0) \<longrightarrow> ec_read_seq s addr buf len = None) \<and>
   (MSI_EC_FW_VERSION_LENGTH c \<le> 255 \<longrightarrow> (\<exists>y. fw_version_show c s = Some y)) \<and>
   (MSI_EC_FW_DATE_LENGTH c \<le> 255 \<and> MSI_EC_FW_TIME_LENGTH c \<le> 255 \<longrightarrow>
      (\<exists>y. fw_release_date_show c l s = Some y)) \<and>
   (256 \<le> MSI_EC_FW_VERSION_LENGTH c \<and> (\<forall>t a. rd_errno s t a = 0) \<longrightarrow>
      fw_version_show c s = None) \<and>
   (256 \<le> MSI_EC_FW_DATE_LENGTH c \<and> (\<forall>t a. rd_errno s t a = 0) \<longrightarrow>
      fw_release_date_show c l s = None)"
proof (intro conjI impI)
  assume a: "0 \<le> len \<and> len \<le> 255 \<and> reads_ok s (length (trace s)) addr (nat len)"
  then have "nat len \<le> 255" and "int (nat len) = len" by linarith+
  with ec_read_seq_ok [of "nat len" s addr buf] a
  show "\<exists>s' buf'. ec_read_seq s addr buf len = Some (s', 0, buf') \<and>
         trace s' = trace s @ seq_reads addr (nat len) \<and>
         length (trace s') = length (trace s) + nat len"
    by (simp add: seq_reads_def)
next
  assume "256 \<le> len \<and> (\<forall>t a. rd_errno s t a = 0)"
  then show "ec_read_seq s addr buf len = None" by (simp add: ec_read_seq_diverges)
next
  assume "MSI_EC_FW_VERSION_LENGTH c \<le> 255"
  then show "\<exists>y. fw_version_show c s = Some y" by (rule fw_version_show_returns)
next
  assume "MSI_EC_FW_DATE_LENGTH c \<le> 255 \<and> MSI_EC_FW_TIME_LENGTH c \<le> 255"
  then show "\<exists>y. fw_release_date_show c l s = Some y"
    using fw_release_date_show_returns [of c l s] by blast
next
  assume "256 \<le> MSI_EC_FW_VERSION_LENGTH c \<and> (\<forall>t a. rd_errno s t a = 0)"
  then show "fw_version_show c s = None"
    by (simp add: fw_version_show_def ec_read_seq_diverges)
next
  assume "256 \<le> MSI_EC_FW_DATE_LENGTH c \<and> (\<forall>t a. rd_errno s t a = 0)"
  then show "fw_release_date_show c l s = None"
    by (simp add: fw_release_date_show_def ec_read_seq_diverges)
qed

theorem ec_read_seq_u8_counter_witness:
  "(\<exists>s' buf'. ec_read_seq (ec_ok (\<lambda>a. a)) 0xA0 (\<lambda>_. 0) 3 = Some (s', 0, buf') \<and>
      trace s' = [Ec_Read 0xA0, Ec_Read 0xA1, Ec_Read 0xA2] \<and> length (trace s') = 3) \<and>
   ec_read_seq (ec_ok (\<lambda>a. a)) 0xA0 (\<lambda>_. 0) 256 = None \<and>
   (\<exists>y. fw_version_show cfg (ec_ok (\<lambda>a. a)) = Some y) \<and>
   (\<exists>y. fw_release_date_show cfg zero_locals (ec_ok (\<lambda>a. a)) = Some y) \<and>
   fw_version_show (cfg\<lparr>MSI_EC_FW_VERSION_LENGTH := 256\<rparr>) (ec_ok (\<lambda>a. a)) = None \<and>
   fw_release_date_show (cfg\<lparr>MSI_EC_FW_DATE_LENGTH := 256\<rparr>) zero_locals (ec_ok (\<lambda>a. a)) = None"
proof -
  let ?s = "ec_ok (\<lambda>a. a)"
  have tr: "trace ?s = []" and ok: "\<forall>t a. rd_errno ?s t a = 0"
    by (simp_all add: ec_ok_def)
  have h1: "0 \<le> (3::int) \<and> (3::int) \<le> 255 \<and> reads_ok ?s (length (trace ?s)) 0xA0 (nat 3)"
    by (simp add: reads_ok_iff ok)
  have h2: "256 \<le> (256::int) \<and> (\<forall>t a. rd_errno ?s t a = 0)"
    by (simp add: ok)
  have h3: "MSI_EC_FW_VERSION_LENGTH cfg \<le> 255"
    and h4: "MSI_EC_FW_DATE_LENGTH cfg \<le> 255 \<and> MSI_EC_FW_TIME_LENGTH cfg \<le> 255"
    by (simp_all add: cfg_def)
  have h5: "256 \<le> MSI_EC_FW_VERSION_LENGTH (cfg\<lparr>MSI_EC_FW_VERSION_LENGTH := 256\<rparr>) \<and>
      (\<forall>t a. rd_errno ?s t a = 0)"
    and h6: "256 \<le> MSI_EC_FW_DATE_LENGTH (cfg\<lparr>MSI_EC_FW_DATE_LENGTH := 256\<rparr>) \<and>
      (\<forall>t a. rd_errno ?s t a = 0)"
    by (simp_all add: ok)
  have sr: "seq_reads 0xA0 (nat 3) = [Ec_Read 0xA0, Ec_Read 0xA1, Ec_Read 0xA2]"
    by (simp add: seq_reads_def upt_rec)
  note a = ec_read_seq_u8_counter [where len = 3 and s = ?s and addr = "0xA0"
      and buf = "\<lambda>_. 0" and c = cfg and l = zero_locals]
  note b = ec_read_seq_u8_counter [where len = 256 and s = ?s and addr = "0xA0"
      and buf = "\<lambda>_. 0" and c = "cfg\<lparr>MSI_EC_FW_VERSION_LENGTH := 256\<rparr>" and l = zero_locals]
  note c = ec_read_seq_u8_counter [where s = ?s
      and c = "cfg\<lparr>MSI_EC_FW_DATE_LENGTH := 256\<rparr>" and l = zero_locals]
  from a h1 have 1: "\<exists>s' buf'. ec_read_seq ?s 0xA0 (\<lambda>_. 0) 3 = Some (s', 0, buf') \<and>
      trace s' = [Ec_Read 0xA0, Ec_Read 0xA1, Ec_Read 0xA2] \<and> length (trace s') = 3"
    unfolding sr tr by simp
  from b h2 have 2: "ec_read_seq ?s 0xA0 (\<lambda>_. 0) 256 = None" by blast
  from a h3 have 3: "\<exists>y. fw_version_show cfg ?s = Some y" by blast
  from a h4 have 4: "\<exists>y. fw_release_date_show cfg zero_locals ?s = Some y" by blast
  from b h5 have 5: "fw_version_show (cfg\<lparr>MSI_EC_FW_VERSION_LENGTH := 256\<rparr>) ?s = None" by blast
  from c h6 have 6: "fw_release_date_show (cfg\<lparr>MSI_EC_FW_DATE_LENGTH := 256\<rparr>) zero_locals ?s = None"
    by blast
  from 1 2 3 4 5 6 show ?thesis by blast
qed

subsection \<open>C3: the sequential reader reads in ascending order, all or nothing\<close>

lemma first_fault_trace_update [simp]:
  "first_fault (s\<lparr>trace := tr\<rparr>) t addr k e = first_fault s t addr k e"
  by (simp add: first_fault_def reads_ok_def)

lemma reads_ok_trace_update [simp]:
  "reads_ok (s\<lparr>trace := tr\<rparr>) t addr n = reads_ok s t addr n"
  by (simp add: reads_ok_def)

lemma length_seq_reads [simp]: "length (seq_reads addr n) = n"
  by (simp add: seq_reads_def)

lemma fw_version_show_fault:
  assumes "k < MSI_EC_FW_VERSION_LENGTH c" "k \<le> 255"
    "first_fault s (length (trace s)) (MSI_EC_FW_VERSION_ADDRESS c) k e"
  shows "fw_version_show c s =
     Some (s\<lparr>trace := trace s @ seq_reads (MSI_EC_FW_VERSION_ADDRESS c) (Suc k)\<rparr>, Fault (- int e))"
proof -
  from assms(1) have "int k < int (MSI_EC_FW_VERSION_LENGTH c)" by simp
  from ec_read_seq_fault [OF assms(2) this assms(3)] assms(3)
  show ?thesis by (simp add: fw_version_show_def first_fault_def)
qed

lemma fw_release_date_show_date_fault:
  assumes "k < MSI_EC_FW_DATE_LENGTH c" "k \<le> 255"
    "first_fault s (length (trace s)) (MSI_EC_FW_DATE_ADDRESS c) k e"
  shows "fw_release_date_show c l s =
     Some (s\<lparr>trace := trace s @ seq_reads (MSI_EC_FW_DATE_ADDRESS c) (Suc k)\<rparr>, Fault (- int e))"
proof -
  from assms(1) have "int k < int (MSI_EC_FW_DATE_LENGTH c)" by simp
  from ec_read_seq_fault [OF assms(2) this assms(3)] assms(3)
  show ?thesis by (simp add: fw_release_date_show_def first_fault_def)
qed

lemma fw_release_date_show_time_fault:
  assumes "MSI_EC_FW_DATE_LENGTH c \<le> 255"
    "reads_ok s (length (trace s)) (MSI_EC_FW_DATE_ADDRESS c) (MSI_EC_FW_DATE_LENGTH c)"
    "k < MSI_EC_FW_TIME_LENGTH c" "k \<le> 255"
    "first_fault s (length (trace s) + MSI_EC_FW_DATE_LENGTH c) (MSI_EC_FW_TIME_ADDRESS c) k e"
  shows "fw_release_date_show c l s =
     Some (s\<lparr>trace := trace s @ seq_reads (MSI_EC_FW_DATE_ADDRESS c) (MSI_EC_FW_DATE_LENGTH c)
                        @ seq_reads (MSI_EC_FW_TIME_ADDRESS c) (Suc k)\<rparr>, Fault (- int e))"
proof -
  let ?s1 = "s\<lparr>trace := trace s @ seq_reads (MSI_EC_FW_DATE_ADDRESS c) (MSI_EC_FW_DATE_LENGTH c)\<rparr>"
  note 1 = ec_read_seq_ok [OF assms(1,2), of "\<lambda>_. 0"]
  from assms(3) have lt: "int k < int (MSI_EC_FW_TIME_LENGTH c)" by simp
  from assms(5) have ff: "first_fault ?s1 (length (trace ?s1)) (MSI_EC_FW_TIME_ADDRESS c) k e"
    by simp
  note 2 = ec_read_seq_fault [OF assms(4) lt ff, of "\<lambda>_. 0"]
  from assms(5) have "e \<noteq> 0" by (simp add: first_fault_def)
  then show ?thesis
    by (simp add: fw_release_date_show_def 1 2 Let_def)
qed

text \<open>
  Claim C3. \<^verbatim>\<open>ec_read_seq\<close> reads the registers \<open>addr\<close>, \<open>addr + 1\<close>, ...,
  \<open>addr + len - 1\<close> in ascending address order (addresses are bytes). When all the reads succeed it returns 0
  with the bytes in the buffer. When the read number \<open>k\<close> is the first that faults, it
  stops there and returns that fault. Its callers \<^verbatim>\<open>fw_version_show\<close> and
  \<^verbatim>\<open>fw_release_date_show\<close> then return the fault alone: no text is produced from the
  bytes already read.
\<close>

theorem ec_read_seq_all_or_nothing:
  "(n \<le> 255 \<and> reads_ok s (length (trace s)) addr n \<longrightarrow>
      ec_read_seq s addr buf (int n) =
        Some (s\<lparr>trace := trace s @ seq_reads addr n\<rparr>, 0,
              \<lambda>x. if x < n then regs s (addr + of_nat x) else buf x)) \<and>
   (k \<le> 255 \<and> int k < len \<and> first_fault s (length (trace s)) addr k e \<longrightarrow>
      (\<exists>buf'. ec_read_seq s addr buf len =
         Some (s\<lparr>trace := trace s @ seq_reads addr (Suc k)\<rparr>, - int e, buf'))) \<and>
   (k < MSI_EC_FW_VERSION_LENGTH c \<and> k \<le> 255 \<and>
    first_fault s (length (trace s)) (MSI_EC_FW_VERSION_ADDRESS c) k e \<longrightarrow>
      fw_version_show c s =
        Some (s\<lparr>trace := trace s @ seq_reads (MSI_EC_FW_VERSION_ADDRESS c) (Suc k)\<rparr>,
              Fault (- int e))) \<and>
   (k < MSI_EC_FW_DATE_LENGTH c \<and> k \<le> 255 \<and>
    first_fault s (length (trace s)) (MSI_EC_FW_DATE_ADDRESS c) k e \<longrightarrow>
      fw_release_date_show c l s =
        Some (s\<lparr>trace := trace s @ seq_reads (MSI_EC_FW_DATE_ADDRESS c) (Suc k)\<rparr>,
              Fault (- int e))) \<and>
   (MSI_EC_FW_DATE_LENGTH c \<le> 255 \<and>
    reads_ok s (length (trace s)) (MSI_EC_FW_DATE_ADDRESS c) (MSI_EC_FW_DATE_LENGTH c) \<and>
    k < MSI_EC_FW_TIME_LENGTH c \<and> k \<le> 255 \<and>
    first_fault s (length (trace s) + MSI_EC_FW_DATE_LENGTH c) (MSI_EC_FW_TIME_ADDRESS c) k e \<longrightarrow>
      fw_release_date_show c l s =
        Some (s\<lparr>trace := trace s @ seq_reads (MSI_EC_FW_DATE_ADDRESS c) (MSI_EC_FW_DATE_LENGTH c)
                           @ seq_reads (MSI_EC_FW_TIME_ADDRESS c) (Suc k)\<rparr>,
              Fault (- int e)))"
proof (intro conjI impI)
  assume "n \<le> 255 \<and> reads_ok s (length (trace s)) addr n"
  then show "ec_read_seq s addr buf (int n) =
        Some (s\<lparr>trace := trace s @ seq_reads addr n\<rparr>, 0,
              \<lambda>x. if x < n then regs s (addr + of_nat x) else buf x)"
    by (simp add: ec_read_seq_ok)
next
  assume "k \<le> 255 \<and> int k < len \<and> first_fault s (length (trace s)) addr k e"
  then show "\<exists>buf'. ec_read_seq s addr buf len =
         Some (s\<lparr>trace := trace s @ seq_reads addr (Suc k)\<rparr>, - int e, buf')"
    using ec_read_seq_fault [of k len s addr e buf] by blast
next
  assume "k < MSI_EC_FW_VERSION_LENGTH c \<and> k \<le> 255 \<and>
    first_fault s (length (trace s)) (MSI_EC_FW_VERSION_ADDRESS c) k e"
  then show "fw_version_show c s =
        Some (s\<lparr>trace := trace s @ seq_reads (MSI_EC_FW_VERSION_ADDRESS c) (Suc k)\<rparr>,
              Fault (- int e))"
    by (simp add: fw_version_show_fault)
next
  assume "k < MSI_EC_FW_DATE_LENGTH c \<and> k \<le> 255 \<and>
    first_fault s (length (trace s)) (MSI_EC_FW_DATE_ADDRESS c) k e"
  then show "fw_release_date_show c l s =
        Some (s\<lparr>trace := trace s @ seq_reads (MSI_EC_FW_DATE_ADDRESS c) (Suc k)\<rparr>,
              Fault (- int e))"
    by (simp add: fw_release_date_show_date_fault)
next
  assume "MSI_EC_FW_DATE_LENGTH c \<le> 255 \<and>
    reads_ok s (length (trace s)) (MSI_EC_FW_DATE_ADDRESS c) (MSI_EC_FW_DATE_LENGTH c) \<and>
    k < MSI_EC_FW_TIME_LENGTH c \<and> k \<le> 255 \<and>
    first_fault s (length (trace s) + MSI_EC_FW_DATE_LENGTH c) (MSI_EC_FW_TIME_ADDRESS c) k e"
  then show "fw_release_date_show c l s =
        Some (s\<lparr>trace := trace s @ seq_reads (MSI_EC_FW_DATE_ADDRESS c) (MSI_EC_FW_DATE_LENGTH c)
                           @ seq_reads (MSI_EC_FW_TIME_ADDRESS c) (Suc k)\<rparr>,
              Fault (- int e))"
    by (simp add: fw_release_date_show_time_fault)
qed

lemma seq_reads_Suc: "seq_reads addr (Suc n) = seq_reads addr n @ [Ec_Read (addr + of_nat n)]"
  by (simp add: seq_reads_def)

lemma seq_reads_0: "seq_reads addr 0 = []"
  by (simp add: seq_reads_def)

theorem ec_read_seq_all_or_nothing_witness:
  "(\<exists>s' buf'. ec_read_seq (ec_ok (\<lambda>a. a + 1)) 0xA0 (\<lambda>_. 0) 3 = Some (s', 0, buf') \<and>
       trace s' = [Ec_Read 0xA0, Ec_Read 0xA1, Ec_Read 0xA2] \<and>
       map buf' [0..<4] = [0xA1, 0xA2, 0xA3, 0]) \<and>
   (\<exists>s' buf'. ec_read_seq (ec_rd_fault (\<lambda>a. a + 1) 2 5) 0xA0 (\<lambda>_. 0) 8 = Some (s', - 5, buf') \<and>
       trace s' = [Ec_Read 0xA0, Ec_Read 0xA1, Ec_Read 0xA2]) \<and>
   (\<exists>s'. fw_version_show cfg (ec_rd_fault (\<lambda>a. a + 1) 2 5) = Some (s', Fault (- 5)) \<and>
       trace s' = [Ec_Read 0xA0, Ec_Read 0xA1, Ec_Read 0xA2]) \<and>
   (\<exists>s'. fw_release_date_show cfg zero_locals (ec_rd_fault (\<lambda>a. a + 1) 2 5) = Some (s', Fault (- 5)) \<and>
       trace s' = [Ec_Read 0xAC, Ec_Read 0xAD, Ec_Read 0xAE]) \<and>
   (\<exists>s'. fw_release_date_show cfg zero_locals (ec_rd_fault (\<lambda>a. a + 1) 9 5) = Some (s', Fault (- 5)) \<and>
       length (trace s') = 10 \<and> last (trace s') = Ec_Read 0xB5)"
proof -
  let ?ok = "ec_ok (\<lambda>a. a + 1)" and ?f2 = "ec_rd_fault (\<lambda>a. a + 1) 2 5"
    and ?f9 = "ec_rd_fault (\<lambda>a. a + 1) 9 5"
  have tr: "trace ?ok = []" "trace ?f2 = []" "trace ?f9 = []"
    by (simp_all add: ec_ok_def ec_rd_fault_def)
  have c: "MSI_EC_FW_VERSION_LENGTH cfg = 12" "MSI_EC_FW_VERSION_ADDRESS cfg = 0xA0"
    "MSI_EC_FW_DATE_LENGTH cfg = 8" "MSI_EC_FW_DATE_ADDRESS cfg = 0xAC"
    "MSI_EC_FW_TIME_LENGTH cfg = 8" "MSI_EC_FW_TIME_ADDRESS cfg = 0xB4"
    by (simp_all add: cfg_def)
  have h1: "(3::nat) \<le> 255 \<and> reads_ok ?ok (length (trace ?ok)) 0xA0 3"
    by (simp add: reads_ok_iff ec_ok_def)
  have h2: "(2::nat) \<le> 255 \<and> int 2 < 8 \<and> first_fault ?f2 (length (trace ?f2)) 0xA0 2 5"
    by (simp add: first_fault_def reads_ok_iff ec_rd_fault_def)
  have h3: "2 < MSI_EC_FW_VERSION_LENGTH cfg \<and> (2::nat) \<le> 255 \<and>
      first_fault ?f2 (length (trace ?f2)) (MSI_EC_FW_VERSION_ADDRESS cfg) 2 5"
    by (simp add: c) (simp add: first_fault_def reads_ok_iff ec_rd_fault_def)
  have h4: "2 < MSI_EC_FW_DATE_LENGTH cfg \<and> (2::nat) \<le> 255 \<and>
      first_fault ?f2 (length (trace ?f2)) (MSI_EC_FW_DATE_ADDRESS cfg) 2 5"
    by (simp add: c) (simp add: first_fault_def reads_ok_iff ec_rd_fault_def)
  have h5: "MSI_EC_FW_DATE_LENGTH cfg \<le> 255 \<and>
      reads_ok ?f9 (length (trace ?f9)) (MSI_EC_FW_DATE_ADDRESS cfg) (MSI_EC_FW_DATE_LENGTH cfg) \<and>
      1 < MSI_EC_FW_TIME_LENGTH cfg \<and> (1::nat) \<le> 255 \<and>
      first_fault ?f9 (length (trace ?f9) + MSI_EC_FW_DATE_LENGTH cfg) (MSI_EC_FW_TIME_ADDRESS cfg) 1 5"
    by (simp add: c) (simp add: first_fault_def reads_ok_iff ec_rd_fault_def)
  have sr: "seq_reads 0xA0 3 = [Ec_Read 0xA0, Ec_Read 0xA1, Ec_Read 0xA2]"
    "seq_reads 0xAC 3 = [Ec_Read 0xAC, Ec_Read 0xAD, Ec_Read 0xAE]"
    "seq_reads 0xB4 2 = [Ec_Read 0xB4, Ec_Read 0xB5]"
    by (simp_all add: seq_reads_def upt_rec)
  note a = ec_read_seq_all_or_nothing [where n = 3 and s = ?ok and addr = "0xA0" and buf = "\<lambda>_. 0"]
  note b = ec_read_seq_all_or_nothing [where k = 2 and len = 8 and e = 5 and s = ?f2
      and addr = "0xA0" and buf = "\<lambda>_. 0" and c = cfg and l = zero_locals]
  note d = ec_read_seq_all_or_nothing [where k = 1 and e = 5 and s = ?f9 and c = cfg and l = zero_locals]
  from a h1 have "ec_read_seq ?ok 0xA0 (\<lambda>_. 0) (int 3) =
        Some (?ok\<lparr>trace := trace ?ok @ seq_reads 0xA0 3\<rparr>, 0,
              \<lambda>x. if x < 3 then regs ?ok (0xA0 + of_nat x) else 0)" by blast
  then have 1: "\<exists>s' buf'. ec_read_seq ?ok 0xA0 (\<lambda>_. 0) 3 = Some (s', 0, buf') \<and>
       trace s' = [Ec_Read 0xA0, Ec_Read 0xA1, Ec_Read 0xA2] \<and>
       map buf' [0..<4] = [0xA1, 0xA2, 0xA3, 0]"
    by (simp add: sr tr upt_rec) (simp add: ec_ok_def)
  from b h2 have "\<exists>buf'. ec_read_seq ?f2 0xA0 (\<lambda>_. 0) 8 =
         Some (?f2\<lparr>trace := trace ?f2 @ seq_reads 0xA0 (Suc 2)\<rparr>, - int 5, buf')" by blast
  then have 2: "\<exists>s' buf'. ec_read_seq ?f2 0xA0 (\<lambda>_. 0) 8 = Some (s', - 5, buf') \<and>
       trace s' = [Ec_Read 0xA0, Ec_Read 0xA1, Ec_Read 0xA2]"
    by (auto simp: sr tr)
  from b h3 have "fw_version_show cfg ?f2 =
        Some (?f2\<lparr>trace := trace ?f2 @ seq_reads (MSI_EC_FW_VERSION_ADDRESS cfg) (Suc 2)\<rparr>,
              Fault (- int 5))" by blast
  then have 3: "\<exists>s'. fw_version_show cfg ?f2 = Some (s', Fault (- 5)) \<and>
       trace s' = [Ec_Read 0xA0, Ec_Read 0xA1, Ec_Read 0xA2]"
    by (simp add: c sr tr)
  from b h4 have "fw_release_date_show cfg zero_locals ?f2 =
        Some (?f2\<lparr>trace := trace ?f2 @ seq_reads (MSI_EC_FW_DATE_ADDRESS cfg) (Suc 2)\<rparr>,
              Fault (- int 5))" by blast
  then have 4: "\<exists>s'. fw_release_date_show cfg zero_locals ?f2 = Some (s', Fault (- 5)) \<and>
       trace s' = [Ec_Read 0xAC, Ec_Read 0xAD, Ec_Read 0xAE]"
    by (simp add: c sr tr)
  from d h5 have "fw_release_date_show cfg zero_locals ?f9 =
        Some (?f9\<lparr>trace := trace ?f9 @ seq_reads (MSI_EC_FW_DATE_ADDRESS cfg) (MSI_EC_FW_DATE_LENGTH cfg)
                           @ seq_reads (MSI_EC_FW_TIME_ADDRESS cfg) (Suc 1)\<rparr>,
              Fault (- int 5))" by blast
  then have 5: "\<exists>s'. fw_release_date_show cfg zero_locals ?f9 = Some (s', Fault (- 5)) \<and>
       length (trace s') = 10 \<and> last (trace s') = Ec_Read 0xB5"
    by (simp add: c tr seq_reads_Suc)
  from 1 2 3 4 5 show ?thesis by blast
qed

subsection \<open>Writes, and the enumeration attributes against their documentation\<close>

lemma ec_write_trace: "trace (fst (ec_write s addr val)) = trace s @ [Ec_Write addr val]"
  by (simp add: ec_write_def Let_def)

lemma ec_write_result: "snd (ec_write s addr val) = - int (wr_errno s (length (trace s)) addr)"
  by (simp add: ec_write_def Let_def)


lemma ec_write_fault:
  "wr_errno s (length (trace s)) addr = e \<Longrightarrow> e \<noteq> 0 \<Longrightarrow>
   ec_write s addr val = (s\<lparr>trace := trace s @ [Ec_Write addr val]\<rparr>, - int e)"
  by (simp add: ec_write_def)


lemma store_return_write_fault:
  "wr_errno s (length (trace s)) addr = e \<Longrightarrow> e \<noteq> 0 \<Longrightarrow>
   store_return count (ec_write s addr val) =
     (s\<lparr>trace := trace s @ [Ec_Write addr val]\<rparr>, - int e)"
  by (simp add: store_return_def ec_write_fault)


lemma enum_store_reject:
  "\<forall>name \<in> fst ` set (enum_names c a). \<not> streq buf name \<Longrightarrow>
   enum_store c a s buf count = (s, - EINVAL)"
  by (cases a)
    (simp_all add: enum_store_def enum_names_def webcam_store_def fn_key_store_def
      win_key_store_def battery_mode_store_def cooler_boost_store_def shift_mode_store_def
      fan_mode_store_def write_if_streq_def store_return_def EINVAL_def)

lemma enum_store_accept:
  "(name, code) \<in> set (enum_names c a) \<Longrightarrow> streq buf name \<Longrightarrow>
   enum_store c a s buf count = store_return count (ec_write s (enum_address c a) code)"
  by (cases a)
    (auto simp: enum_store_def enum_names_def enum_address_def webcam_store_def fn_key_store_def
      win_key_store_def battery_mode_store_def cooler_boost_store_def shift_mode_store_def
      fan_mode_store_def write_if_streq_def streq_def)

lemma enum_show_fault:
  "rd_errno s (length (trace s)) (enum_address c a) = e \<Longrightarrow> e \<noteq> 0 \<Longrightarrow>
   enum_show c a s = (s\<lparr>trace := trace s @ [Ec_Read (enum_address c a)]\<rparr>, Fault (- int e))"
  by (cases a)
    (simp_all add: enum_show_def enum_address_def webcam_show_def fn_key_show_def
      win_key_show_def battery_mode_show_def cooler_boost_show_def shift_mode_show_def
      fan_mode_show_def ec_read_fault)

lemma enum_show_unknown:
  "rd_errno s (length (trace s)) (enum_address c a) = 0 \<Longrightarrow>
   regs s (enum_address c a) \<notin> snd ` set (enum_names c a) \<Longrightarrow>
   enum_show c a s = (s\<lparr>trace := trace s @ [Ec_Read (enum_address c a)]\<rparr>,
                      Text (unknown_text (regs s (enum_address c a))))"
  by (cases a)
    (simp_all add: enum_show_def enum_address_def enum_names_def webcam_show_def fn_key_show_def
      win_key_show_def battery_mode_show_def cooler_boost_show_def shift_mode_show_def
      fan_mode_show_def ec_read_ok)

lemma enum_show_known:
  "rd_errno s (length (trace s)) (enum_address c a) = 0 \<Longrightarrow>
   regs s (enum_address c a) \<in> snd ` set (enum_names c a) \<Longrightarrow>
   \<exists>name. (name, regs s (enum_address c a)) \<in> set (enum_names c a) \<and>
      enum_show c a s = (s\<lparr>trace := trace s @ [Ec_Read (enum_address c a)]\<rparr>,
                         Text (name @ [CHR 0x0A]))"
  by (cases a)
    (auto simp: enum_show_def enum_address_def enum_names_def webcam_show_def fn_key_show_def
      win_key_show_def battery_mode_show_def cooler_boost_show_def shift_mode_show_def
      fan_mode_show_def ec_read_ok)

subsection \<open>C4: enumerations decode every byte and encode only documented names\<close>

text \<open>
  Claim C4. For each of webcam, fn_key, win_key, battery_mode, cooler_boost, shift_mode
  and fan_mode: when the transport read succeeds, \<^verbatim>\<open>show\<close> never fails; a byte that is not
  one of the documented codes is printed as \<^verbatim>\<open>unknown (<byte>)\<close>, a documented code as
  its name. \<^verbatim>\<open>store\<close> succeeds only when the input is a documented name (as \<^verbatim>\<open>streq\<close>
  compares it: the name, or the name and one newline), and returns \<^verbatim>\<open>-EINVAL\<close> for every
  other input.
\<close>

theorem enum_decode_total_encode_strict:
  "(rd_errno s (length (trace s)) (enum_address c a) = 0 \<longrightarrow>
      (\<exists>txt. snd (enum_show c a s) = Text txt)) \<and>
   (rd_errno s (length (trace s)) (enum_address c a) = 0 \<and>
    regs s (enum_address c a) \<notin> snd ` set (enum_names c a) \<longrightarrow>
      snd (enum_show c a s) = Text (unknown_text (regs s (enum_address c a)))) \<and>
   (rd_errno s (length (trace s)) (enum_address c a) = 0 \<and>
    regs s (enum_address c a) \<in> snd ` set (enum_names c a) \<longrightarrow>
      (\<exists>name. (name, regs s (enum_address c a)) \<in> set (enum_names c a) \<and>
         snd (enum_show c a s) = Text (name @ [CHR 0x0A]))) \<and>
   (0 \<le> snd (enum_store c a s buf count) \<longrightarrow>
      (\<exists>name \<in> fst ` set (enum_names c a). streq buf name)) \<and>
   ((\<forall>name \<in> fst ` set (enum_names c a). \<not> streq buf name) \<longrightarrow>
      enum_store c a s buf count = (s, - EINVAL))"
proof (intro conjI impI)
  assume ok: "rd_errno s (length (trace s)) (enum_address c a) = 0"
  show "\<exists>txt. snd (enum_show c a s) = Text txt"
  proof (cases "regs s (enum_address c a) \<in> snd ` set (enum_names c a)")
    case True
    from enum_show_known [OF ok True] show ?thesis by auto
  next
    case False
    from enum_show_unknown [OF ok False] show ?thesis by simp
  qed
next
  assume "rd_errno s (length (trace s)) (enum_address c a) = 0 \<and>
    regs s (enum_address c a) \<notin> snd ` set (enum_names c a)"
  then show "snd (enum_show c a s) = Text (unknown_text (regs s (enum_address c a)))"
    by (simp add: enum_show_unknown)
next
  assume "rd_errno s (length (trace s)) (enum_address c a) = 0 \<and>
    regs s (enum_address c a) \<in> snd ` set (enum_names c a)"
  then have "\<exists>name. (name, regs s (enum_address c a)) \<in> set (enum_names c a) \<and>
      enum_show c a s = (s\<lparr>trace := trace s @ [Ec_Read (enum_address c a)]\<rparr>,
                         Text (name @ [CHR 0x0A]))"
    using enum_show_known [of s c a] by blast
  then show "\<exists>name. (name, regs s (enum_address c a)) \<in> set (enum_names c a) \<and>
         snd (enum_show c a s) = Text (name @ [CHR 0x0A])"
    by auto
next
  assume nonneg: "0 \<le> snd (enum_store c a s buf count)"
  show "\<exists>name \<in> fst ` set (enum_names c a). streq buf name"
  proof (rule ccontr)
    assume "\<not> (\<exists>name \<in> fst ` set (enum_names c a). streq buf name)"
    then have "enum_store c a s buf count = (s, - EINVAL)"
      using enum_store_reject [of c a buf s count] by blast
    with nonneg show False by (simp add: EINVAL_def)
  qed
next
  assume "\<forall>name \<in> fst ` set (enum_names c a). \<not> streq buf name"
  then show "enum_store c a s buf count = (s, - EINVAL)" by (rule enum_store_reject)
qed

lemma unknown_text_153: "unknown_text 0x99 = ''unknown (153)'' @ [CHR 0x0A]"
  by code_simp

theorem enum_decode_total_encode_strict_witness:
  "snd (enum_show cfg Webcam (ec_ok (\<lambda>_. 0x99))) = Text (''unknown (153)'' @ [CHR 0x0A]) \<and>
   snd (enum_show cfg Webcam (ec_ok (\<lambda>_. 0x4A))) = Text (''on'' @ [CHR 0x0A]) \<and>
   (\<exists>name \<in> fst ` set (enum_names cfg Webcam). streq (''on'' @ [CHR 0x0A]) name) \<and>
   enum_store cfg Webcam (ec_ok (\<lambda>_. 0x4A)) ''enabled'' 7 = (ec_ok (\<lambda>_. 0x4A), - EINVAL)"
proof -
  let ?u = "ec_ok (\<lambda>_. 0x99)" and ?k = "ec_ok (\<lambda>_. 0x4A)"
  have names: "enum_names cfg Webcam = [(''on'', 0x4A), (''off'', 0x48)]"
    and addr: "enum_address cfg Webcam = 0x2E"
    by (simp_all add: enum_names_def enum_address_def cfg_def)
  have h1: "rd_errno ?u (length (trace ?u)) (enum_address cfg Webcam) = 0 \<and>
      regs ?u (enum_address cfg Webcam) \<notin> snd ` set (enum_names cfg Webcam)"
    by (simp add: names addr ec_ok_def)
  have h2: "rd_errno ?k (length (trace ?k)) (enum_address cfg Webcam) = 0 \<and>
      regs ?k (enum_address cfg Webcam) \<in> snd ` set (enum_names cfg Webcam)"
    by (simp add: names addr ec_ok_def)
  have st: "enum_store cfg Webcam ?k (''on'' @ [CHR 0x0A]) 3 =
      store_return 3 (ec_write ?k (enum_address cfg Webcam) 0x4A)"
    by (rule enum_store_accept [where name = "''on''"]) (simp_all add: names streq_def)
  have h3: "0 \<le> snd (enum_store cfg Webcam ?k (''on'' @ [CHR 0x0A]) 3)"
    unfolding st by (simp add: store_return_def ec_write_def ec_ok_def)
  have h4: "\<forall>name \<in> fst ` set (enum_names cfg Webcam). \<not> streq ''enabled'' name"
    by (simp add: names streq_def)
  note a = enum_decode_total_encode_strict [where c = cfg and a = Webcam and s = ?u]
  note b = enum_decode_total_encode_strict [where c = cfg and a = Webcam and s = ?k
      and buf = "''on'' @ [CHR 0x0A]" and count = 3]
  note d = enum_decode_total_encode_strict [where c = cfg and a = Webcam and s = ?k
      and buf = "''enabled''" and count = 7]
  from a h1 have "snd (enum_show cfg Webcam ?u) = Text (unknown_text (regs ?u (enum_address cfg Webcam)))"
    by blast
  then have 1: "snd (enum_show cfg Webcam ?u) = Text (''unknown (153)'' @ [CHR 0x0A])"
    by (simp add: ec_ok_def unknown_text_153)
  from b h2 have "\<exists>name. (name, regs ?k (enum_address cfg Webcam)) \<in> set (enum_names cfg Webcam) \<and>
         snd (enum_show cfg Webcam ?k) = Text (name @ [CHR 0x0A])" by blast
  then have 2: "snd (enum_show cfg Webcam ?k) = Text (''on'' @ [CHR 0x0A])"
    by (auto simp: names ec_ok_def)
  from b h3 have 3: "\<exists>name \<in> fst ` set (enum_names cfg Webcam). streq (''on'' @ [CHR 0x0A]) name"
    by blast
  from d h4 have 4: "enum_store cfg Webcam ?k ''enabled'' 7 = (?k, - EINVAL)" by blast
  from 1 2 3 4 show ?thesis by blast
qed

subsection \<open>C9: the accepted spellings of an enumeration name\<close>



subsection \<open>Parsing numbers; the numeric stores\<close>



lemma kstrtou8_Inr: "kstrtou8 buf = Inr v \<longleftrightarrow> (\<exists>n. kstrtoull buf = Inr n \<and> n < 256 \<and> v = of_nat n)"
  by (auto simp: kstrtou8_def split: sum.splits)

lemma kstrtou8_big: "kstrtoull buf = Inr n \<Longrightarrow> 256 \<le> n \<Longrightarrow> kstrtou8 buf = Inl (- ERANGE)"
  by (simp add: kstrtou8_def)






lemma charge_control_threshold_store_accept:
  "kstrtou8 buf = Inr v \<Longrightarrow>
   uint (MSI_EC_CHARGE_CONTROL_RANGE_MIN c) \<le> uint (v + offset) \<Longrightarrow>
   uint (v + offset) \<le> uint (MSI_EC_CHARGE_CONTROL_RANGE_MAX c) \<Longrightarrow>
   charge_control_threshold_store c offset s buf count =
     store_return count (ec_write s (MSI_EC_CHARGE_CONTROL_ADDRESS c) (v + offset))"
  by (auto simp: charge_control_threshold_store_def Let_def)

lemma cpu_basic_fan_speed_store_accept:
  "kstrtou8 buf = Inr wdata \<Longrightarrow> uint wdata \<le> 100 \<Longrightarrow>
   cpu_basic_fan_speed_store c s buf count =
     store_return count
       (ec_write s (MSI_EC_CPU_BASIC_FAN_SPEED_ADDRESS c)
          (word_of_int
             (c_div (uint wdata * (uint (MSI_EC_CPU_BASIC_FAN_SPEED_BASE_MAX c) -
                                   uint (MSI_EC_CPU_BASIC_FAN_SPEED_BASE_MIN c)) +
                     100 * uint (MSI_EC_CPU_BASIC_FAN_SPEED_BASE_MIN c))
                100)))"
  by (simp add: cpu_basic_fan_speed_store_def)


lemma kstrtou8_examples:
  "kstrtou8 ''5'' = Inr 5" "kstrtou8 ''100'' = Inr 100" "kstrtou8 ''3'' = Inr 3"
  "kstrtou8 ''50'' = Inr 50" "kstrtou8 (''50'' @ [CHR 0x0A]) = Inr 50"
  "kstrtou8 ''full'' = Inl (- EINVAL)" "kstrtou8 ''300'' = Inl (- ERANGE)"
  by (simp_all add: kstrtou8_def kstrtoull_def isdigit_def digit_val_def)

subsection \<open>C6: validation comes before any transport write\<close>



subsection \<open>The fan speed scale\<close>




subsection \<open>C8: the end-to-end fan speed example\<close>



subsection \<open>C1: the fan speed round trip\<close>








subsection \<open>C2: the charge threshold round trip\<close>







subsection \<open>Transport faults in the single-register operations\<close>

lemma byte_show_fault:
  assumes "e \<noteq> 0"
  shows "rd_errno s (length (trace s)) (MSI_EC_CHARGE_CONTROL_ADDRESS c) = e \<Longrightarrow>
           snd (charge_control_start_threshold_show c s) = Fault (- int e)"
    and "rd_errno s (length (trace s)) (MSI_EC_CHARGE_CONTROL_ADDRESS c) = e \<Longrightarrow>
           snd (charge_control_end_threshold_show c s) = Fault (- int e)"
    and "rd_errno s (length (trace s)) (MSI_EC_CPU_REALTIME_TEMPERATURE_ADDRESS c) = e \<Longrightarrow>
           snd (cpu_realtime_temperature_show c s) = Fault (- int e)"
    and "rd_errno s (length (trace s)) (MSI_EC_CPU_REALTIME_FAN_SPEED_ADDRESS c) = e \<Longrightarrow>
           snd (cpu_realtime_fan_speed_show c s) = Fault (- int e)"
    and "rd_errno s (length (trace s)) (MSI_EC_CPU_BASIC_FAN_SPEED_ADDRESS c) = e \<Longrightarrow>
           snd (cpu_basic_fan_speed_show c s) = Fault (- int e)"
    and "rd_errno s (length (trace s)) (MSI_EC_GPU_REALTIME_TEMPERATURE_ADDRESS c) = e \<Longrightarrow>
           snd (gpu_realtime_temperature_show c s) = Fault (- int e)"
    and "rd_errno s (length (trace s)) (MSI_EC_GPU_REALTIME_FAN_SPEED_ADDRESS c) = e \<Longrightarrow>
           snd (gpu_realtime_fan_speed_show c s) = Fault (- int e)"
  using assms
  by (simp_all add: charge_control_start_threshold_show_def charge_control_end_threshold_show_def
      charge_control_threshold_show_def cpu_realtime_temperature_show_def
      cpu_realtime_fan_speed_show_def cpu_basic_fan_speed_show_def
      gpu_realtime_temperature_show_def gpu_realtime_fan_speed_show_def ec_read_fault)

lemma led_set_fault:
  assumes "e \<noteq> 0"
  shows "wr_errno s (length (trace s)) (MSI_EC_LED_MICMUTE_ADDRESS c) = e \<Longrightarrow>
           snd (micmute_led_sysfs_set c s brightness) = - int e"
    and "wr_errno s (length (trace s)) (MSI_EC_LED_MUTE_ADDRESS c) = e \<Longrightarrow>
           snd (mute_led_sysfs_set c s brightness) = - int e"
    and "wr_errno s (length (trace s)) (MSI_EC_KBD_BL_ADDRESS c) = e \<Longrightarrow>
           0 \<le> brightness \<Longrightarrow> brightness \<le> 3 \<Longrightarrow>
           snd (kbd_bl_sysfs_set c s brightness) = - int e"
  using assms
  by (simp_all add: micmute_led_sysfs_set_def mute_led_sysfs_set_def kbd_bl_sysfs_set_def
      ec_write_fault Let_def)

lemma kbd_bl_sysfs_get_fault:
  "rd_errno s (length (trace s)) (MSI_EC_KBD_BL_ADDRESS c) = e \<Longrightarrow> e \<noteq> 0 \<Longrightarrow>
   kbd_bl_sysfs_get c s = (s\<lparr>trace := trace s @ [Ec_Read (MSI_EC_KBD_BL_ADDRESS c)]\<rparr>, 0)"
  by (simp add: kbd_bl_sysfs_get_def ec_read_fault)

lemma kbd_bl_sysfs_get_ok:
  "rd_errno s (length (trace s)) (MSI_EC_KBD_BL_ADDRESS c) = 0 \<Longrightarrow>
   kbd_bl_sysfs_get c s = (s\<lparr>trace := trace s @ [Ec_Read (MSI_EC_KBD_BL_ADDRESS c)]\<rparr>,
      uint (regs s (MSI_EC_KBD_BL_ADDRESS c) AND MSI_EC_KBD_BL_STATE_MASK c))"
  by (simp add: kbd_bl_sysfs_get_def ec_read_ok)

lemma numeric_store_fault:
  assumes "e \<noteq> 0" "kstrtou8 buf = Inr v"
  shows "wr_errno s (length (trace s)) (MSI_EC_CPU_BASIC_FAN_SPEED_ADDRESS c) = e \<Longrightarrow>
           uint v \<le> 100 \<Longrightarrow> snd (cpu_basic_fan_speed_store c s buf count) = - int e"
    and "wr_errno s (length (trace s)) (MSI_EC_CHARGE_CONTROL_ADDRESS c) = e \<Longrightarrow>
           uint (MSI_EC_CHARGE_CONTROL_RANGE_MIN c) \<le> uint (v + offset) \<Longrightarrow>
           uint (v + offset) \<le> uint (MSI_EC_CHARGE_CONTROL_RANGE_MAX c) \<Longrightarrow>
           snd (charge_control_threshold_store c offset s buf count) = - int e"
  using assms
  by (simp_all add: cpu_basic_fan_speed_store_accept charge_control_threshold_store_accept
      store_return_write_fault)

subsection \<open>C5: transport faults reach the caller\<close>

text \<open>
  Claim C5, as amended. A transport fault met by \<^verbatim>\<open>ec_read_seq\<close>, by any sysfs \<^verbatim>\<open>show\<close>
  or \<^verbatim>\<open>store\<close> callback or by any LED setter is returned to the caller with its errno
  unchanged: no value is made up in its place. The keyboard backlight getter
  \<^verbatim>\<open>kbd_bl_sysfs_get\<close> is the exception: its result is a brightness, and on a failing
  read it returns brightness 0.
\<close>

theorem transport_faults_propagate_except_kbd_get:
  "e \<noteq> 0 \<Longrightarrow>
   (k \<le> 255 \<and> int k < len \<and> first_fault s (length (trace s)) addr k e \<longrightarrow>
      (\<exists>s' buf'. ec_read_seq s addr rbuf len = Some (s', - int e, buf'))) \<and>
   (k < MSI_EC_FW_VERSION_LENGTH c \<and> k \<le> 255 \<and>
    first_fault s (length (trace s)) (MSI_EC_FW_VERSION_ADDRESS c) k e \<longrightarrow>
      (\<exists>s'. fw_version_show c s = Some (s', Fault (- int e)))) \<and>
   (k < MSI_EC_FW_DATE_LENGTH c \<and> k \<le> 255 \<and>
    first_fault s (length (trace s)) (MSI_EC_FW_DATE_ADDRESS c) k e \<longrightarrow>
      (\<exists>s'. fw_release_date_show c l s = Some (s', Fault (- int e)))) \<and>
   (MSI_EC_FW_DATE_LENGTH c \<le> 255 \<and>
    reads_ok s (length (trace s)) (MSI_EC_FW_DATE_ADDRESS c) (MSI_EC_FW_DATE_LENGTH c) \<and>
    k < MSI_EC_FW_TIME_LENGTH c \<and> k \<le> 255 \<and>
    first_fault s (length (trace s) + MSI_EC_FW_DATE_LENGTH c) (MSI_EC_FW_TIME_ADDRESS c) k e \<longrightarrow>
      (\<exists>s'. fw_release_date_show c l s = Some (s', Fault (- int e)))) \<and>
   (rd_errno s (length (trace s)) (enum_address c a) = e \<longrightarrow>
      snd (enum_show c a s) = Fault (- int e)) \<and>
   (rd_errno s (length (trace s)) (MSI_EC_CHARGE_CONTROL_ADDRESS c) = e \<longrightarrow>
      snd (charge_control_start_threshold_show c s) = Fault (- int e) \<and>
      snd (charge_control_end_threshold_show c s) = Fault (- int e)) \<and>
   (rd_errno s (length (trace s)) (MSI_EC_CPU_REALTIME_TEMPERATURE_ADDRESS c) = e \<longrightarrow>
      snd (cpu_realtime_temperature_show c s) = Fault (- int e)) \<and>
   (rd_errno s (length (trace s)) (MSI_EC_CPU_REALTIME_FAN_SPEED_ADDRESS c) = e \<longrightarrow>
      snd (cpu_realtime_fan_speed_show c s) = Fault (- int e)) \<and>
   (rd_errno s (length (trace s)) (MSI_EC_CPU_BASIC_FAN_SPEED_ADDRESS c) = e \<longrightarrow>
      snd (cpu_basic_fan_speed_show c s) = Fault (- int e)) \<and>
   (rd_errno s (length (trace s)) (MSI_EC_GPU_REALTIME_TEMPERATURE_ADDRESS c) = e \<longrightarrow>
      snd (gpu_realtime_temperature_show c s) = Fault (- int e)) \<and>
   (rd_errno s (length (trace s)) (MSI_EC_GPU_REALTIME_FAN_SPEED_ADDRESS c) = e \<longrightarrow>
      snd (gpu_realtime_fan_speed_show c s) = Fault (- int e)) \<and>
   ((name, code) \<in> set (enum_names c a) \<and> streq buf name \<and>
    wr_errno s (length (trace s)) (enum_address c a) = e \<longrightarrow>
      snd (enum_store c a s buf count) = - int e) \<and>
   (kstrtou8 buf = Inr v \<and> uint v \<le> 100 \<and>
    wr_errno s (length (trace s)) (MSI_EC_CPU_BASIC_FAN_SPEED_ADDRESS c) = e \<longrightarrow>
      snd (cpu_basic_fan_speed_store c s buf count) = - int e) \<and>
   (kstrtou8 buf = Inr v \<and>
    uint (MSI_EC_CHARGE_CONTROL_RANGE_MIN c) \<le> uint (v + MSI_EC_CHARGE_CONTROL_OFFSET_START c) \<and>
    uint (v + MSI_EC_CHARGE_CONTROL_OFFSET_START c) \<le> uint (MSI_EC_CHARGE_CONTROL_RANGE_MAX c) \<and>
    wr_errno s (length (trace s)) (MSI_EC_CHARGE_CONTROL_ADDRESS c) = e \<longrightarrow>
      snd (charge_control_start_threshold_store c s buf count) = - int e) \<and>
   (kstrtou8 buf = Inr v \<and>
    uint (MSI_EC_CHARGE_CONTROL_RANGE_MIN c) \<le> uint (v + MSI_EC_CHARGE_CONTROL_OFFSET_END c) \<and>
    uint (v + MSI_EC_CHARGE_CONTROL_OFFSET_END c) \<le> uint (MSI_EC_CHARGE_CONTROL_RANGE_MAX c) \<and>
    wr_errno s (length (trace s)) (MSI_EC_CHARGE_CONTROL_ADDRESS c) = e \<longrightarrow>
      snd (charge_control_end_threshold_store c s buf count) = - int e) \<and>
   (wr_errno s (length (trace s)) (MSI_EC_LED_MICMUTE_ADDRESS c) = e \<longrightarrow>
      snd (micmute_led_sysfs_set c s brightness) = - int e) \<and>
   (wr_errno s (length (trace s)) (MSI_EC_LED_MUTE_ADDRESS c) = e \<longrightarrow>
      snd (mute_led_sysfs_set c s brightness) = - int e) \<and>
   (0 \<le> brightness \<and> brightness \<le> 3 \<and>
    wr_errno s (length (trace s)) (MSI_EC_KBD_BL_ADDRESS c) = e \<longrightarrow>
      snd (kbd_bl_sysfs_set c s brightness) = - int e) \<and>
   (rd_errno s (length (trace s)) (MSI_EC_KBD_BL_ADDRESS c) = e \<longrightarrow>
      snd (kbd_bl_sysfs_get c s) = 0)"
proof -
  assume e: "e \<noteq> 0"
  have 1: "k \<le> 255 \<and> int k < len \<and> first_fault s (length (trace s)) addr k e \<longrightarrow>
      (\<exists>s' buf'. ec_read_seq s addr rbuf len = Some (s', - int e, buf'))"
    using ec_read_seq_fault [of k len s addr e rbuf] by blast
  have 2: "k < MSI_EC_FW_VERSION_LENGTH c \<and> k \<le> 255 \<and>
    first_fault s (length (trace s)) (MSI_EC_FW_VERSION_ADDRESS c) k e \<longrightarrow>
      (\<exists>s'. fw_version_show c s = Some (s', Fault (- int e)))"
    using fw_version_show_fault [of k c s e] by blast
  have 3: "k < MSI_EC_FW_DATE_LENGTH c \<and> k \<le> 255 \<and>
    first_fault s (length (trace s)) (MSI_EC_FW_DATE_ADDRESS c) k e \<longrightarrow>
      (\<exists>s'. fw_release_date_show c l s = Some (s', Fault (- int e)))"
    using fw_release_date_show_date_fault [of k c s e l] by blast
  have 4: "MSI_EC_FW_DATE_LENGTH c \<le> 255 \<and>
    reads_ok s (length (trace s)) (MSI_EC_FW_DATE_ADDRESS c) (MSI_EC_FW_DATE_LENGTH c) \<and>
    k < MSI_EC_FW_TIME_LENGTH c \<and> k \<le> 255 \<and>
    first_fault s (length (trace s) + MSI_EC_FW_DATE_LENGTH c) (MSI_EC_FW_TIME_ADDRESS c) k e \<longrightarrow>
      (\<exists>s'. fw_release_date_show c l s = Some (s', Fault (- int e)))"
    using fw_release_date_show_time_fault [of c s k e l] by blast
  have 5: "rd_errno s (length (trace s)) (enum_address c a) = e \<longrightarrow>
      snd (enum_show c a s) = Fault (- int e)"
    using enum_show_fault [of s c a e] e by simp
  note bs = byte_show_fault [OF e, of s c]
  have 6: "rd_errno s (length (trace s)) (MSI_EC_CHARGE_CONTROL_ADDRESS c) = e \<longrightarrow>
      snd (charge_control_start_threshold_show c s) = Fault (- int e) \<and>
      snd (charge_control_end_threshold_show c s) = Fault (- int e)"
    using bs(1,2) by blast
  have 7: "(name, code) \<in> set (enum_names c a) \<and> streq buf name \<and>
    wr_errno s (length (trace s)) (enum_address c a) = e \<longrightarrow>
      snd (enum_store c a s buf count) = - int e"
    using enum_store_accept [of name code c a buf s count]
      store_return_write_fault [of s "enum_address c a" e count code] e
    by auto
  note ns = numeric_store_fault [OF e, of buf v s c]
  have 8: "kstrtou8 buf = Inr v \<and> uint v \<le> 100 \<and>
    wr_errno s (length (trace s)) (MSI_EC_CPU_BASIC_FAN_SPEED_ADDRESS c) = e \<longrightarrow>
      snd (cpu_basic_fan_speed_store c s buf count) = - int e"
    using ns(1) by blast
  have 9: "kstrtou8 buf = Inr v \<and>
    uint (MSI_EC_CHARGE_CONTROL_RANGE_MIN c) \<le> uint (v + MSI_EC_CHARGE_CONTROL_OFFSET_START c) \<and>
    uint (v + MSI_EC_CHARGE_CONTROL_OFFSET_START c) \<le> uint (MSI_EC_CHARGE_CONTROL_RANGE_MAX c) \<and>
    wr_errno s (length (trace s)) (MSI_EC_CHARGE_CONTROL_ADDRESS c) = e \<longrightarrow>
      snd (charge_control_start_threshold_store c s buf count) = - int e"
    unfolding charge_control_start_threshold_store_def using ns(2) by blast
  have 10: "kstrtou8 buf = Inr v \<and>
    uint (MSI_EC_CHARGE_CONTROL_RANGE_MIN c) \<le> uint (v + MSI_EC_CHARGE_CONTROL_OFFSET_END c) \<and>
    uint (v + MSI_EC_CHARGE_CONTROL_OFFSET_END c) \<le> uint (MSI_EC_CHARGE_CONTROL_RANGE_MAX c) \<and>
    wr_errno s (length (trace s)) (MSI_EC_CHARGE_CONTROL_ADDRESS c) = e \<longrightarrow>
      snd (charge_control_end_threshold_store c s buf count) = - int e"
    unfolding charge_control_end_threshold_store_def using ns(2) by blast
  note ls = led_set_fault [OF e, of s c]
  have 11: "0 \<le> brightness \<and> brightness \<le> 3 \<and>
    wr_errno s (length (trace s)) (MSI_EC_KBD_BL_ADDRESS c) = e \<longrightarrow>
      snd (kbd_bl_sysfs_set c s brightness) = - int e"
    using ls(3) by blast
  have 12: "rd_errno s (length (trace s)) (MSI_EC_KBD_BL_ADDRESS c) = e \<longrightarrow>
      snd (kbd_bl_sysfs_get c s) = 0"
    using kbd_bl_sysfs_get_fault [of s c e] e by simp
  have 13: "rd_errno s (length (trace s)) (MSI_EC_CPU_REALTIME_TEMPERATURE_ADDRESS c) = e \<longrightarrow>
      snd (cpu_realtime_temperature_show c s) = Fault (- int e)"
    and 14: "rd_errno s (length (trace s)) (MSI_EC_CPU_REALTIME_FAN_SPEED_ADDRESS c) = e \<longrightarrow>
      snd (cpu_realtime_fan_speed_show c s) = Fault (- int e)"
    and 15: "rd_errno s (length (trace s)) (MSI_EC_CPU_BASIC_FAN_SPEED_ADDRESS c) = e \<longrightarrow>
      snd (cpu_basic_fan_speed_show c s) = Fault (- int e)"
    and 16: "rd_errno s (length (trace s)) (MSI_EC_GPU_REALTIME_TEMPERATURE_ADDRESS c) = e \<longrightarrow>
      snd (gpu_realtime_temperature_show c s) = Fault (- int e)"
    and 17: "rd_errno s (length (trace s)) (MSI_EC_GPU_REALTIME_FAN_SPEED_ADDRESS c) = e \<longrightarrow>
      snd (gpu_realtime_fan_speed_show c s) = Fault (- int e)"
    using bs(3-7) by blast+
  have 18: "wr_errno s (length (trace s)) (MSI_EC_LED_MICMUTE_ADDRESS c) = e \<longrightarrow>
      snd (micmute_led_sysfs_set c s brightness) = - int e"
    and 19: "wr_errno s (length (trace s)) (MSI_EC_LED_MUTE_ADDRESS c) = e \<longrightarrow>
      snd (mute_led_sysfs_set c s brightness) = - int e"
    using ls(1,2) by blast+
  show ?thesis
    by (intro conjI) (fact 1 2 3 4 5 6 13 14 15 16 17 7 8 9 10 18 19 11 12)+
qed


theorem transport_faults_propagate_except_kbd_get_witness:
  "(\<exists>s' buf'. ec_read_seq (ec_rd_fault (all_regs 0) 0 5) 0xA0 (all_regs 0 \<circ> of_nat) 8 = Some (s', - 5, buf')) \<and>
   (\<exists>s'. fw_version_show cfg (ec_rd_fault (all_regs 0) 0 5) = Some (s', Fault (- 5))) \<and>
   (\<exists>s'. fw_release_date_show cfg zero_locals (ec_rd_fault (all_regs 0) 0 5) = Some (s', Fault (- 5))) \<and>
   (\<exists>s'. fw_release_date_show cfg zero_locals (ec_rd_fault (all_regs 0) 8 5) = Some (s', Fault (- 5))) \<and>
   snd (enum_show cfg Shift_Mode (ec_rd_fault (all_regs 0) 0 5)) = Fault (- 5) \<and>
   snd (charge_control_start_threshold_show cfg (ec_rd_fault (all_regs 0) 0 5)) = Fault (- 5) \<and>
   snd (charge_control_end_threshold_show cfg (ec_rd_fault (all_regs 0) 0 5)) = Fault (- 5) \<and>
   snd (cpu_realtime_temperature_show cfg (ec_rd_fault (all_regs 0) 0 5)) = Fault (- 5) \<and>
   snd (cpu_realtime_fan_speed_show cfg (ec_rd_fault (all_regs 0) 0 5)) = Fault (- 5) \<and>
   snd (cpu_basic_fan_speed_show cfg (ec_rd_fault (all_regs 0) 0 5)) = Fault (- 5) \<and>
   snd (gpu_realtime_temperature_show cfg (ec_rd_fault (all_regs 0) 0 5)) = Fault (- 5) \<and>
   snd (gpu_realtime_fan_speed_show cfg (ec_rd_fault (all_regs 0) 0 5)) = Fault (- 5) \<and>
   snd (enum_store cfg Shift_Mode (ec_wr_fault (all_regs 0) 0 5) ''eco'' 3) = - 5 \<and>
   snd (cpu_basic_fan_speed_store cfg (ec_wr_fault (all_regs 0) 0 5) ''50'' 2) = - 5 \<and>
   snd (charge_control_start_threshold_store cfg (ec_wr_fault (all_regs 0) 0 5) ''50'' 2) = - 5 \<and>
   snd (charge_control_end_threshold_store cfg (ec_wr_fault (all_regs 0) 0 5) ''50'' 2) = - 5 \<and>
   snd (micmute_led_sysfs_set cfg (ec_wr_fault (all_regs 0) 0 5) 1) = - 5 \<and>
   snd (mute_led_sysfs_set cfg (ec_wr_fault (all_regs 0) 0 5) 1) = - 5 \<and>
   snd (kbd_bl_sysfs_set cfg (ec_wr_fault (all_regs 0) 0 5) 1) = - 5 \<and>
   snd (kbd_bl_sysfs_get cfg (ec_rd_fault (all_regs 0) 0 5)) = 0"
proof -
  let ?R = "ec_rd_fault (all_regs 0) 0 5" and ?R8 = "ec_rd_fault (all_regs 0) 8 5"
    and ?W = "ec_wr_fault (all_regs 0) 0 5"
  have e: "(5::nat) \<noteq> 0" by simp
  have rd: "rd_errno ?R (length (trace ?R)) x = 5" for x by (simp add: ec_rd_fault_def)
  have wr: "wr_errno ?W (length (trace ?W)) x = 5" for x by (simp add: ec_wr_fault_def)
  have ff: "first_fault ?R (length (trace ?R)) x 0 5" for x
    by (simp add: first_fault_def reads_ok_def ec_rd_fault_def)
  have c: "MSI_EC_FW_VERSION_LENGTH cfg = 12" "MSI_EC_FW_DATE_LENGTH cfg = 8"
    "MSI_EC_FW_TIME_LENGTH cfg = 8"
    "MSI_EC_CHARGE_CONTROL_OFFSET_START cfg = 0x8A" "MSI_EC_CHARGE_CONTROL_OFFSET_END cfg = 0x80"
    "MSI_EC_CHARGE_CONTROL_RANGE_MIN cfg = 0x8A" "MSI_EC_CHARGE_CONTROL_RANGE_MAX cfg = 0xE4"
    by (simp_all add: cfg_def)
  have ok8: "reads_ok ?R8 (length (trace ?R8)) (MSI_EC_FW_DATE_ADDRESS cfg) (MSI_EC_FW_DATE_LENGTH cfg)"
    and ff8: "first_fault ?R8 (length (trace ?R8) + MSI_EC_FW_DATE_LENGTH cfg)
        (MSI_EC_FW_TIME_ADDRESS cfg) 0 5"
    by (simp_all add: c first_fault_def reads_ok_iff ec_rd_fault_def)
  have names: "(''eco'', MSI_EC_SHIFT_MODE_ECO cfg) \<in> set (enum_names cfg Shift_Mode) \<and> streq ''eco'' ''eco''"
    by (simp add: enum_names_def streq_def)
  have k: "kstrtou8 ''50'' = Inr 50 \<and> uint (50 :: u8) \<le> 100" by (simp add: kstrtou8_examples)
  have rs: "uint (MSI_EC_CHARGE_CONTROL_RANGE_MIN cfg) \<le> uint (50 + MSI_EC_CHARGE_CONTROL_OFFSET_START cfg) \<and>
      uint (50 + MSI_EC_CHARGE_CONTROL_OFFSET_START cfg) \<le> uint (MSI_EC_CHARGE_CONTROL_RANGE_MAX cfg)"
    and re: "uint (MSI_EC_CHARGE_CONTROL_RANGE_MIN cfg) \<le> uint (50 + MSI_EC_CHARGE_CONTROL_OFFSET_END cfg) \<and>
      uint (50 + MSI_EC_CHARGE_CONTROL_OFFSET_END cfg) \<le> uint (MSI_EC_CHARGE_CONTROL_RANGE_MAX cfg)"
    by (simp_all add: c)
  note R = transport_faults_propagate_except_kbd_get [OF e, where s = ?R and c = cfg and k = 0
      and a = Shift_Mode and l = zero_locals and addr = "0xA0" and len = 8
      and rbuf = "all_regs 0 \<circ> of_nat"]
  note R8 = transport_faults_propagate_except_kbd_get [OF e, where s = ?R8 and c = cfg and k = 0
      and l = zero_locals]
  note W = transport_faults_propagate_except_kbd_get [OF e, where s = ?W and c = cfg
      and a = Shift_Mode and name = "''eco''" and code = "MSI_EC_SHIFT_MODE_ECO cfg"
      and buf = "''eco''" and count = 3 and brightness = 1]
  note W50 = transport_faults_propagate_except_kbd_get [OF e, where s = ?W and c = cfg
      and buf = "''50''" and v = 50 and count = 2]
  have 1: "\<exists>s' buf'. ec_read_seq ?R 0xA0 (all_regs 0 \<circ> of_nat) 8 = Some (s', - 5, buf')"
    using R ff [of "0xA0"] by simp
  have 2: "\<exists>s'. fw_version_show cfg ?R = Some (s', Fault (- 5))"
    using R ff [of "MSI_EC_FW_VERSION_ADDRESS cfg"] by (simp add: c)
  have 3: "\<exists>s'. fw_release_date_show cfg zero_locals ?R = Some (s', Fault (- 5))"
    using R ff [of "MSI_EC_FW_DATE_ADDRESS cfg"] by (simp add: c)
  have 4: "\<exists>s'. fw_release_date_show cfg zero_locals ?R8 = Some (s', Fault (- 5))"
    using R8 ok8 ff8 by (simp add: c)
  have 5: "snd (enum_show cfg Shift_Mode ?R) = Fault (- 5)"
    "snd (charge_control_start_threshold_show cfg ?R) = Fault (- 5)"
    "snd (charge_control_end_threshold_show cfg ?R) = Fault (- 5)"
    "snd (cpu_realtime_temperature_show cfg ?R) = Fault (- 5)"
    "snd (cpu_realtime_fan_speed_show cfg ?R) = Fault (- 5)"
    "snd (cpu_basic_fan_speed_show cfg ?R) = Fault (- 5)"
    "snd (gpu_realtime_temperature_show cfg ?R) = Fault (- 5)"
    "snd (gpu_realtime_fan_speed_show cfg ?R) = Fault (- 5)"
    "snd (kbd_bl_sysfs_get cfg ?R) = 0"
    using R rd by simp_all
  have 6: "snd (enum_store cfg Shift_Mode ?W ''eco'' 3) = - 5"
    "snd (micmute_led_sysfs_set cfg ?W 1) = - 5"
    "snd (mute_led_sysfs_set cfg ?W 1) = - 5"
    "snd (kbd_bl_sysfs_set cfg ?W 1) = - 5"
    using W wr names by simp_all
  have 7: "snd (cpu_basic_fan_speed_store cfg ?W ''50'' 2) = - 5"
    "snd (charge_control_start_threshold_store cfg ?W ''50'' 2) = - 5"
    "snd (charge_control_end_threshold_store cfg ?W ''50'' 2) = - 5"
    using W50 wr k rs re by simp_all
  show ?thesis
    by (intro conjI) (fact 1 2 3 4 5 6 7)+
qed

text \<open>The keyboard backlight read on a controller whose first read fails with errno 5:
  the transport reports \<open>- 5\<close>, the getter reports brightness 0, the value it also
  reports for a healthy register holding 0x80.\<close>

theorem kbd_bl_get_swallows_fault_counterexample:
  "snd (ec_read (ec_rd_fault (all_regs 0xFF) 0 5) (MSI_EC_KBD_BL_ADDRESS cfg)) = Inl (- 5) \<and>
   snd (kbd_bl_sysfs_get cfg (ec_rd_fault (all_regs 0xFF) 0 5)) = 0 \<and>
   snd (kbd_bl_sysfs_get cfg (ec_ok (all_regs 0x80))) = 0"
proof -
  have "rd_errno (ec_rd_fault (all_regs 0xFF) 0 5)
      (length (trace (ec_rd_fault (all_regs 0xFF) 0 5))) (MSI_EC_KBD_BL_ADDRESS cfg) = 5"
    by (simp add: ec_rd_fault_def)
  then have 1: "snd (ec_read (ec_rd_fault (all_regs 0xFF) 0 5) (MSI_EC_KBD_BL_ADDRESS cfg)) = Inl (- 5)"
    and 2: "snd (kbd_bl_sysfs_get cfg (ec_rd_fault (all_regs 0xFF) 0 5)) = 0"
    by (simp_all add: ec_read_fault kbd_bl_sysfs_get_fault)
  have m: "MSI_EC_KBD_BL_STATE_MASK cfg = 0x03" by (simp add: cfg_def)
  have "rd_errno (ec_ok (all_regs 0x80)) (length (trace (ec_ok (all_regs 0x80))))
      (MSI_EC_KBD_BL_ADDRESS cfg) = 0"
    and "regs (ec_ok (all_regs 0x80)) (MSI_EC_KBD_BL_ADDRESS cfg) = 0x80"
    by (simp_all add: ec_ok_def all_regs_def)
  then have 3: "snd (kbd_bl_sysfs_get cfg (ec_ok (all_regs 0x80))) = 0"
    by (simp add: kbd_bl_sysfs_get_ok m)
  from 1 2 3 show ?thesis by blast
qed

subsection \<open>The firmware release date\<close>

lemma fw_release_date_show_ok:
  assumes "MSI_EC_FW_DATE_LENGTH c \<le> 255" "MSI_EC_FW_TIME_LENGTH c \<le> 255"
    "reads_ok s (length (trace s)) (MSI_EC_FW_DATE_ADDRESS c) (MSI_EC_FW_DATE_LENGTH c)"
    "reads_ok s (length (trace s) + MSI_EC_FW_DATE_LENGTH c) (MSI_EC_FW_TIME_ADDRESS c)
       (MSI_EC_FW_TIME_LENGTH c)"
  shows "fw_release_date_show c l s =
    (let rdate = (\<lambda>x. if x < MSI_EC_FW_DATE_LENGTH c
                       then regs s (MSI_EC_FW_DATE_ADDRESS c + of_nat x) else 0);
         rtime = (\<lambda>x. if x < MSI_EC_FW_TIME_LENGTH c
                       then regs s (MSI_EC_FW_TIME_ADDRESS c + of_nat x) else 0);
         mdy = assigned (vsscanf (c_string rdate (MSI_EC_FW_DATE_LENGTH c + 1))
                           [Conv_d 2, Conv_d 2, Conv_d 4]) [month l, day l, year l];
         hms = assigned (vsscanf (c_string rtime (MSI_EC_FW_TIME_LENGTH c + 1))
                           [Conv_d 2, Lit CHR '':'', Conv_d 2, Lit CHR '':'', Conv_d 2])
                        [hour l, minute l, second l]
     in Some (s\<lparr>trace := trace s @ seq_reads (MSI_EC_FW_DATE_ADDRESS c) (MSI_EC_FW_DATE_LENGTH c)
                              @ seq_reads (MSI_EC_FW_TIME_ADDRESS c) (MSI_EC_FW_TIME_LENGTH c)\<rparr>,
              Text (fmt_d 4 (mdy ! 2) @ ''/'' @ fmt_d 2 (mdy ! 0) @ ''/''
                    @ fmt_d 2 (mdy ! 1) @ '' '' @ fmt_d 2 (hms ! 0) @ '':''
                    @ fmt_d 2 (hms ! 1) @ '':'' @ fmt_d 2 (hms ! 2) @ [CHR 0x0A])))"
proof -
  let ?s1 = "s\<lparr>trace := trace s @ seq_reads (MSI_EC_FW_DATE_ADDRESS c) (MSI_EC_FW_DATE_LENGTH c)\<rparr>"
  note 1 = ec_read_seq_ok [OF assms(1,3), of "\<lambda>_. 0"]
  from assms(4) have ok2: "reads_ok ?s1 (length (trace ?s1)) (MSI_EC_FW_TIME_ADDRESS c)
       (MSI_EC_FW_TIME_LENGTH c)" by simp
  note 2 = ec_read_seq_ok [OF assms(2) ok2, of "\<lambda>_. 0"]
  show ?thesis
    by (simp add: fw_release_date_show_def 1 2 Let_def cong: if_cong)
qed

lemma c_string_of_bytes:
  assumes "map f [0..<n] = bs" "0 \<notin> set bs"
  shows "c_string (\<lambda>x. if x < n then f x else 0) (n + 1) = map (\<lambda>b. char_of (unat b)) bs"
proof -
  have "map (\<lambda>x. if x < n then f x else 0) [0..<n + 1] = map f [0..<n] @ [0]"
    by simp
  moreover from assms(2) have "takeWhile (\<lambda>b. b \<noteq> 0) (bs @ [0]) = bs"
    by (subst takeWhile_append2) auto
  ultimately show ?thesis
    unfolding c_string_def assms(1) by simp
qed

lemma example_texts:
  "map (\<lambda>b. char_of (unat b)) (bytes_of ''07042024'') = ''07042024''"
  "map (\<lambda>b. char_of (unat b)) (bytes_of ''13:05:59'') = ''13:05:59''"
  "map (\<lambda>b. char_of (unat b)) (bytes_of ''0704ABCD'') = ''0704ABCD''"
  "0 \<notin> set (bytes_of ''07042024'')" "0 \<notin> set (bytes_of ''13:05:59'')"
  "0 \<notin> set (bytes_of ''0704ABCD'')"
  by code_simp+

lemma vsscanf_examples:
  "vsscanf ''07042024'' [Conv_d 2, Conv_d 2, Conv_d 4] = [7, 4, 2024]"
  "vsscanf ''13:05:59'' [Conv_d 2, Lit CHR '':'', Conv_d 2, Lit CHR '':'', Conv_d 2] = [13, 5, 59]"
  "vsscanf ''0704ABCD'' [Conv_d 2, Conv_d 2, Conv_d 4] = [7, 4]"
  by code_simp+

lemma fmt_d_date_examples:
  "fmt_d 4 2024 = ''2024''" "fmt_d 2 7 = ''07''" "fmt_d 2 4 = ''04''" "fmt_d 2 13 = ''13''"
  "fmt_d 2 5 = ''05''" "fmt_d 2 59 = ''59''" "fmt_d 4 0 = ''0000''"
  by code_simp+

subsection \<open>C7: parsing the packed release date and time\<close>

text \<open>
  Claim C7, as amended. The date bytes \<^verbatim>\<open>07042024\<close> are parsed as month 7, day 4, year
  2024 (layout MMDDYYYY) and the time bytes \<^verbatim>\<open>13:05:59\<close> as hour 13, minute 5, second
  59; \<^verbatim>\<open>fw_release_date_show\<close> then prints \<^verbatim>\<open>2024/07/04 13:05:59\<close>. The function has
  no decode fault: whatever bytes the registers hold, numeric or not, it returns text
  whenever the transport reads succeed.
\<close>

theorem fw_release_date_parse:
  "(MSI_EC_FW_DATE_LENGTH c = 8 \<and> MSI_EC_FW_TIME_LENGTH c = 8 \<and>
    reads_ok s (length (trace s)) (MSI_EC_FW_DATE_ADDRESS c) 8 \<and>
    reads_ok s (length (trace s) + 8) (MSI_EC_FW_TIME_ADDRESS c) 8 \<and>
    map (\<lambda>x. regs s (MSI_EC_FW_DATE_ADDRESS c + of_nat x)) [0..<8] = bytes_of ''07042024'' \<and>
    map (\<lambda>x. regs s (MSI_EC_FW_TIME_ADDRESS c + of_nat x)) [0..<8] = bytes_of ''13:05:59'' \<longrightarrow>
      (\<exists>s'. fw_release_date_show c l s = Some (s', Text (''2024/07/04 13:05:59'' @ [CHR 0x0A])))) \<and>
   assigned (vsscanf ''07042024'' [Conv_d 2, Conv_d 2, Conv_d 4]) [month l, day l, year l] =
     [7, 4, 2024] \<and>
   assigned (vsscanf ''13:05:59'' [Conv_d 2, Lit CHR '':'', Conv_d 2, Lit CHR '':'', Conv_d 2])
     [hour l, minute l, second l] = [13, 5, 59] \<and>
   (MSI_EC_FW_DATE_LENGTH c \<le> 255 \<and> MSI_EC_FW_TIME_LENGTH c \<le> 255 \<and>
    reads_ok s (length (trace s)) (MSI_EC_FW_DATE_ADDRESS c) (MSI_EC_FW_DATE_LENGTH c) \<and>
    reads_ok s (length (trace s) + MSI_EC_FW_DATE_LENGTH c) (MSI_EC_FW_TIME_ADDRESS c)
      (MSI_EC_FW_TIME_LENGTH c) \<longrightarrow>
      (\<exists>s' txt. fw_release_date_show c l s = Some (s', Text txt)))"
proof (intro conjI impI)
  show "assigned (vsscanf ''07042024'' [Conv_d 2, Conv_d 2, Conv_d 4]) [month l, day l, year l] =
     [7, 4, 2024]"
    by (simp add: vsscanf_examples assigned_def)
  show "assigned (vsscanf ''13:05:59'' [Conv_d 2, Lit CHR '':'', Conv_d 2, Lit CHR '':'', Conv_d 2])
     [hour l, minute l, second l] = [13, 5, 59]"
    by (simp add: vsscanf_examples assigned_def)
next
  assume a: "MSI_EC_FW_DATE_LENGTH c \<le> 255 \<and> MSI_EC_FW_TIME_LENGTH c \<le> 255 \<and>
    reads_ok s (length (trace s)) (MSI_EC_FW_DATE_ADDRESS c) (MSI_EC_FW_DATE_LENGTH c) \<and>
    reads_ok s (length (trace s) + MSI_EC_FW_DATE_LENGTH c) (MSI_EC_FW_TIME_ADDRESS c)
      (MSI_EC_FW_TIME_LENGTH c)"
  then show "\<exists>s' txt. fw_release_date_show c l s = Some (s', Text txt)"
    using fw_release_date_show_ok [of c s l] by (simp add: Let_def)
next
  assume a: "MSI_EC_FW_DATE_LENGTH c = 8 \<and> MSI_EC_FW_TIME_LENGTH c = 8 \<and>
    reads_ok s (length (trace s)) (MSI_EC_FW_DATE_ADDRESS c) 8 \<and>
    reads_ok s (length (trace s) + 8) (MSI_EC_FW_TIME_ADDRESS c) 8 \<and>
    map (\<lambda>x. regs s (MSI_EC_FW_DATE_ADDRESS c + of_nat x)) [0..<8] = bytes_of ''07042024'' \<and>
    map (\<lambda>x. regs s (MSI_EC_FW_TIME_ADDRESS c + of_nat x)) [0..<8] = bytes_of ''13:05:59''"
  then have d: "c_string (\<lambda>x. if x < 8 then regs s (MSI_EC_FW_DATE_ADDRESS c + of_nat x) else 0) (8 + 1)
      = ''07042024''"
    and t: "c_string (\<lambda>x. if x < 8 then regs s (MSI_EC_FW_TIME_ADDRESS c + of_nat x) else 0) (8 + 1)
      = ''13:05:59''"
    by (simp_all only: c_string_of_bytes example_texts not_False_eq_True)
  from a have "fw_release_date_show c l s =
     Some (s\<lparr>trace := trace s @ seq_reads (MSI_EC_FW_DATE_ADDRESS c) 8
                              @ seq_reads (MSI_EC_FW_TIME_ADDRESS c) 8\<rparr>,
           Text (fmt_d 4 2024 @ ''/'' @ fmt_d 2 7 @ ''/'' @ fmt_d 2 4 @ '' '' @ fmt_d 2 13 @ '':''
                 @ fmt_d 2 5 @ '':'' @ fmt_d 2 59 @ [CHR 0x0A]))"
    using fw_release_date_show_ok [of c s l] d t
    by (simp add: Let_def vsscanf_examples assigned_def)
  then show "\<exists>s'. fw_release_date_show c l s = Some (s', Text (''2024/07/04 13:05:59'' @ [CHR 0x0A]))"
    by (simp add: fmt_d_date_examples)
qed


theorem fw_release_date_parse_witness:
  "(\<exists>s'. fw_release_date_show cfg zero_locals (ec_ok regs_good_date) =
      Some (s', Text (''2024/07/04 13:05:59'' @ [CHR 0x0A]))) \<and>
   (\<exists>s' txt. fw_release_date_show cfg zero_locals (ec_ok regs_bad_year) = Some (s', Text txt))"
proof -
  let ?g = "ec_ok regs_good_date" and ?b = "ec_ok regs_bad_year"
  have c: "MSI_EC_FW_DATE_LENGTH cfg = 8" "MSI_EC_FW_TIME_LENGTH cfg = 8"
    by (simp_all add: cfg_def)
  have ok: "reads_ok (ec_ok rs) t x n" for rs t x n
    by (simp add: reads_ok_iff ec_ok_def)
  have bytes: "map (\<lambda>x. regs ?g (MSI_EC_FW_DATE_ADDRESS cfg + of_nat x)) [0..<8] = bytes_of ''07042024''"
    "map (\<lambda>x. regs ?g (MSI_EC_FW_TIME_ADDRESS cfg + of_nat x)) [0..<8] = bytes_of ''13:05:59''"
    by code_simp+
  have h1: "MSI_EC_FW_DATE_LENGTH cfg = 8 \<and> MSI_EC_FW_TIME_LENGTH cfg = 8 \<and>
    reads_ok ?g (length (trace ?g)) (MSI_EC_FW_DATE_ADDRESS cfg) 8 \<and>
    reads_ok ?g (length (trace ?g) + 8) (MSI_EC_FW_TIME_ADDRESS cfg) 8 \<and>
    map (\<lambda>x. regs ?g (MSI_EC_FW_DATE_ADDRESS cfg + of_nat x)) [0..<8] = bytes_of ''07042024'' \<and>
    map (\<lambda>x. regs ?g (MSI_EC_FW_TIME_ADDRESS cfg + of_nat x)) [0..<8] = bytes_of ''13:05:59''"
    using c ok bytes by blast
  have h2: "MSI_EC_FW_DATE_LENGTH cfg \<le> 255 \<and> MSI_EC_FW_TIME_LENGTH cfg \<le> 255 \<and>
    reads_ok ?b (length (trace ?b)) (MSI_EC_FW_DATE_ADDRESS cfg) (MSI_EC_FW_DATE_LENGTH cfg) \<and>
    reads_ok ?b (length (trace ?b) + MSI_EC_FW_DATE_LENGTH cfg) (MSI_EC_FW_TIME_ADDRESS cfg)
      (MSI_EC_FW_TIME_LENGTH cfg)"
    using ok by (simp add: c)
  from fw_release_date_parse [where c = cfg and s = ?g and l = zero_locals] h1
  have 1: "\<exists>s'. fw_release_date_show cfg zero_locals ?g =
      Some (s', Text (''2024/07/04 13:05:59'' @ [CHR 0x0A]))" by blast
  from fw_release_date_parse [where c = cfg and s = ?b and l = zero_locals] h2
  have 2: "\<exists>s' txt. fw_release_date_show cfg zero_locals ?b = Some (s', Text txt)" by blast
  from 1 2 show ?thesis by blast
qed

text \<open>A release date whose year field is not numeric, \<^verbatim>\<open>0704ABCD\<close>: no fault is
  returned; month and day are parsed and printed, the year printed is the content the
  variable happened to have (here 0).\<close>

theorem fw_release_date_no_decode_fault_counterexample:
  "map_option snd (fw_release_date_show cfg zero_locals (ec_ok regs_bad_year)) =
     Some (Text (''0000/07/04 13:05:59'' @ [CHR 0x0A]))"
proof -
  let ?b = "ec_ok regs_bad_year"
  have c: "MSI_EC_FW_DATE_LENGTH cfg = 8" "MSI_EC_FW_TIME_LENGTH cfg = 8"
    by (simp_all add: cfg_def)
  have ok: "reads_ok (ec_ok rs) t x n" for rs t x n
    by (simp add: reads_ok_iff ec_ok_def)
  have bytes: "map (\<lambda>x. regs ?b (MSI_EC_FW_DATE_ADDRESS cfg + of_nat x)) [0..<8] = bytes_of ''0704ABCD''"
    "map (\<lambda>x. regs ?b (MSI_EC_FW_TIME_ADDRESS cfg + of_nat x)) [0..<8] = bytes_of ''13:05:59''"
    by code_simp+
  have d: "c_string (\<lambda>x. if x < 8 then regs ?b (MSI_EC_FW_DATE_ADDRESS cfg + of_nat x) else 0) (8 + 1)
      = ''0704ABCD''"
    and t: "c_string (\<lambda>x. if x < 8 then regs ?b (MSI_EC_FW_TIME_ADDRESS cfg + of_nat x) else 0) (8 + 1)
      = ''13:05:59''"
    using bytes by (simp_all only: c_string_of_bytes example_texts not_False_eq_True)
  have "fw_release_date_show cfg zero_locals ?b =
     Some (?b\<lparr>trace := trace ?b @ seq_reads (MSI_EC_FW_DATE_ADDRESS cfg) 8
                              @ seq_reads (MSI_EC_FW_TIME_ADDRESS cfg) 8\<rparr>,
           Text (fmt_d 4 0 @ ''/'' @ fmt_d 2 7 @ ''/'' @ fmt_d 2 4 @ '' '' @ fmt_d 2 13 @ '':''
                 @ fmt_d 2 5 @ '':'' @ fmt_d 2 59 @ [CHR 0x0A]))"
    using fw_release_date_show_ok [of cfg ?b zero_locals] d t ok
    by (simp add: c Let_def vsscanf_examples assigned_def zero_locals_def)
  then show ?thesis by (simp add: fmt_d_date_examples)
qed

end
